theory Spec2Isabelle
  imports Complex_Main "HOL-Library.Word" "HOL-Library.Log_Nat"
begin

section \<open>Upload handlers of the file-storage service\<close>

text \<open>
  A shallow embedding of \<^verbatim>\<open>src/api/videos.ts\<close> (the primary-media pipeline),
  \<^verbatim>\<open>src/api/assets.ts\<close> (asset helpers and the thumbnail handler) and of the earlier
  variant of the primary-media handler that uploads the raw file directly. Thrown
  exceptions are values of a sum type, the file system, the record store and the object
  store are fields of an explicit world that every handler takes and returns, and every
  call to an external collaborator is recorded in the world's trace. The outcome of each
  external call (authentication, multipart parsing, subprocess exit codes, storage and
  persistence failures, random bytes) is read from an environment record, so that the
  theorems quantify over every behaviour of the collaborators.
\<close>

subsection \<open>Errors, records, requests\<close>

text \<open>
  The exception classes of \<^verbatim>\<open>./errors\<close> used by the handlers, and JavaScript's
  generic \<^verbatim>\<open>Error\<close>. An external collaborator may throw any of them.
\<close>

datatype error =
    BadRequestError string
  | UserForbiddenError string
  | NotFoundError string
  | UserNotAuthenticatedError string
  | Error string

type_synonym bytes = "8 word list"

text \<open>
  The video record of the record store. The handlers read \<^verbatim>\<open>userID\<close> and assign
  \<^verbatim>\<open>videoURL\<close> or \<^verbatim>\<open>thumbnailURL\<close>; the remaining columns are kept as an
  association list.
\<close>

record video =
  video_id :: string
  userID :: string
  videoURL :: "string option"
  thumbnailURL :: "string option"
  other_fields :: "(string \<times> string) list"

record apiConfig =
  jwtSecret :: string
  s3CfDistribution :: string
  s3Bucket :: string
  s3Region :: string
  assetsRoot :: string
  port :: string

text \<open>A \<^verbatim>\<open>File\<close> of the multipart form: its size, its content type and its bytes.\<close>

record formFile =
  file_size :: nat
  file_type :: string
  file_data :: bytes

text \<open>The request: the route parameter \<^verbatim>\<open>videoId\<close>, which may be missing.\<close>

record request =
  videoId :: "string option"

text \<open>One stream of the probe's JSON output; a missing key is \<open>None\<close>.\<close>

record stream =
  width :: "int option"
  height :: "int option"

text \<open>The response built by \<^verbatim>\<open>respondWithJSON(status, payload)\<close>; a \<^verbatim>\<open>null\<close> payload is \<open>None\<close>.\<close>

record response =
  status :: nat
  payload :: "video option"

subsection \<open>The world and the environment\<close>

datatype event =
    FsWrite string
  | FsDelete string
  | SpawnFfprobe string
  | SpawnFfmpeg string string
  | S3Upload string string string
  | S3Write string
  | DbUpdate video
  | ConsoleError string

record world =
  fs :: "string \<rightharpoonup> bytes"
  db :: "string \<rightharpoonup> video"
  s3 :: "string \<rightharpoonup> bytes"
  trace :: "event list"

text \<open>
  The outcomes of the external calls of one run. \<open>None\<close> in an outcome of type
  \<open>error option\<close> means that the call returned normally.
\<close>

record env =
  validateUUID :: "string \<Rightarrow> bool"
  authenticate :: "error + string"
  formData :: "error + formFile option"
  random :: "nat \<Rightarrow> 8 word"
  write_outcome :: "error option"
  ffprobe_exit :: int
  ffprobe_stderr :: string
  ffprobe_json :: "error + stream list option"
  ffmpeg_exit :: int
  ffmpeg_stderr :: string
  ffmpeg_output :: "bytes option"
  s3_outcome :: "error option"
  update_outcome :: "error option"
  delete_outcome :: "error option"
  path_join :: "string \<Rightarrow> string \<Rightarrow> string"

definition emit :: "event \<Rightarrow> world \<Rightarrow> world" where
  "emit e w = w\<lparr>trace := trace w @ [e]\<rparr>"

text \<open>The events that a run from \<open>w\<close> to \<open>w'\<close> added to the trace.\<close>

definition events :: "world \<Rightarrow> world \<Rightarrow> event list" where
  "events w w' = drop (length (trace w)) (trace w')"

subsection \<open>Strings: numbers, hexadecimal, splitting\<close>

fun showNat :: "nat \<Rightarrow> string" where
  "showNat n = (if n < 10 then [''0123456789'' ! n]
                else showNat (n div 10) @ [''0123456789'' ! (n mod 10)])"

declare showNat.simps [simp del]

definition showInt :: "int \<Rightarrow> string" where
  "showInt i = (if i < 0 then CHR ''-'' # showNat (nat (- i)) else showNat (nat i))"

text \<open>\<^verbatim>\<open>Buffer.toString("hex")\<close>: two lower-case hexadecimal digits for each byte.\<close>

definition hexDigit :: "nat \<Rightarrow> char" where
  "hexDigit n = ''0123456789abcdef'' ! n"

definition toHex :: "bytes \<Rightarrow> string" where
  "toHex bs = concat (map (\<lambda>b. [hexDigit (unat b div 16), hexDigit (unat b mod 16)]) bs)"

text \<open>\<^verbatim>\<open>randomBytes(n)\<close>: the first \<open>n\<close> bytes of the run's random source.\<close>

definition randomBytes :: "env \<Rightarrow> nat \<Rightarrow> bytes" where
  "randomBytes en n = map (random en) [0..<n]"

text \<open>
  \<^verbatim>\<open>String.prototype.split(sep)\<close> for a one-character separator: the pieces between
  the separators; a string without the separator, the empty string too, gives one piece.
\<close>

fun split_sep :: "char \<Rightarrow> string \<Rightarrow> string list" where
  "split_sep c [] = [[]]"
| "split_sep c (x # xs) =
     (if x = c then [] # split_sep c xs
      else (case split_sep c xs of [] \<Rightarrow> [[x]] | p # ps \<Rightarrow> (x # p) # ps))"

subsection \<open>Asset helpers (assets.ts)\<close>

definition mediaTypeToExt :: "string \<Rightarrow> string" where
  "mediaTypeToExt mediaType =
     (let parts = split_sep (CHR ''/'') mediaType
      in if length parts \<noteq> 2 then ''.bin'' else ''.'' @ parts ! 1)"

definition getAssetDiskPath :: "env \<Rightarrow> apiConfig \<Rightarrow> string \<Rightarrow> string" where
  "getAssetDiskPath en cfg assetPath = path_join en (assetsRoot cfg) assetPath"

definition getAssetUrl :: "apiConfig \<Rightarrow> string \<Rightarrow> string" where
  "getAssetUrl cfg assetPath = ''http://localhost:'' @ port cfg @ ''/assets/'' @ assetPath"

subsection \<open>JavaScript numbers\<close>

text \<open>
  A JavaScript number is an IEEE 754 double. The value of a finite double is a rational,
  and each arithmetic operation returns the double nearest to the exact result, a tie
  going to the even significand. \<open>fl\<close> is that rounding, with 53 significant bits; the
  exponent range is left unbounded, since no quotient or difference of the probe's
  dimensions leaves the normal range.
\<close>

definition round_half_even :: "rat \<Rightarrow> int" where
  "round_half_even y =
     (let f = \<lfloor>y\<rfloor>; d = y - of_int f
      in if d < 1 / 2 then f else if 1 / 2 < d then f + 1 else if even f then f else f + 1)"

text \<open>For \<open>0 < x\<close>, the exponent \<open>e\<close> with \<open>2 powi e \<le> x < 2 powi (e + 1)\<close>.\<close>

definition ilog2 :: "rat \<Rightarrow> int" where
  "ilog2 x =
     (let k = bitlen (fst (quotient_of x)) - bitlen (snd (quotient_of x))
      in if 2 powi k \<le> x then k else k - 1)"

definition fl :: "rat \<Rightarrow> rat" where
  "fl x =
     (if x = 0 then 0
      else let u = 2 powi (ilog2 \<bar>x\<bar> - 52)
           in sgn x * of_int (round_half_even (\<bar>x\<bar> / u)) * u)"

text \<open>A JSON integer read as a number, and the operators \<^verbatim>\<open>/\<close> and \<^verbatim>\<open>-\<close>.\<close>

definition toNumber :: "int \<Rightarrow> rat" where
  "toNumber i = fl (of_int i)"

definition fdiv :: "rat \<Rightarrow> rat \<Rightarrow> rat" where
  "fdiv a b = fl (a / b)"

definition fsub :: "rat \<Rightarrow> rat \<Rightarrow> rat" where
  "fsub a b = fl (a - b)"

subsection \<open>Probing and remuxing (videos.ts)\<close>

text \<open>
  Lines 118 to 128 of \<^verbatim>\<open>getVideoAspectRatio\<close>: the classification of the probed
  width and height, both non-zero.
\<close>

definition aspectRatioOf :: "int \<Rightarrow> int \<Rightarrow> string" where
  "aspectRatioOf w h =
     (let ratio = fdiv (toNumber w) (toNumber h)
      in if \<bar>fsub ratio (fdiv 16 9)\<bar> < fl (1 / 10) then ''landscape''
         else if \<bar>fsub ratio (fdiv 9 16)\<bar> < fl (1 / 10) then ''portrait''
         else ''other'')"

text \<open>\<^verbatim>\<open>result.streams?.[0]\<close>: the first stream, if there is one.\<close>

definition firstStream :: "stream list option \<Rightarrow> stream option" where
  "firstStream result =
     (case result of None \<Rightarrow> None | Some [] \<Rightarrow> None | Some (st # _) \<Rightarrow> Some st)"

text \<open>\<^verbatim>\<open>!x\<close> for a numeric property: missing or zero.\<close>

definition falsy :: "int option \<Rightarrow> bool" where
  "falsy x = (case x of None \<Rightarrow> True | Some n \<Rightarrow> n = 0)"

definition getVideoAspectRatio :: "env \<Rightarrow> string \<Rightarrow> world \<Rightarrow> (error + string) \<times> world" where
  "getVideoAspectRatio en filePath w =
     (let w1 = emit (SpawnFfprobe filePath) w
      in if ffprobe_exit en \<noteq> 0
         then (Inl (Error (''ffprobe failed with exit code '' @ showInt (ffprobe_exit en)
                            @ '': '' @ ffprobe_stderr en)), w1)
         else (case ffprobe_json en of
                 Inl e \<Rightarrow> (Inl e, w1)
               | Inr result \<Rightarrow>
                   (case firstStream result of
                      None \<Rightarrow> (Inl (Error ''Could not extract video dimensions''), w1)
                    | Some st \<Rightarrow>
                        if falsy (width st) \<or> falsy (height st)
                        then (Inl (Error ''Could not extract video dimensions''), w1)
                        else (Inr (aspectRatioOf (the (width st)) (the (height st))), w1))))"

text \<open>
  The remux subprocess writes its output file (when \<open>ffmpeg_output\<close> is not \<open>None\<close>)
  whatever its exit code is.
\<close>

definition processVideoForFastStart :: "env \<Rightarrow> string \<Rightarrow> world \<Rightarrow> (error + string) \<times> world" where
  "processVideoForFastStart en filePath w =
     (let processedFilePath = filePath @ ''.processed'';
          w1 = emit (SpawnFfmpeg filePath processedFilePath) w;
          w2 = (case ffmpeg_output en of
                  None \<Rightarrow> w1
                | Some out \<Rightarrow> w1\<lparr>fs := (fs w1)(processedFilePath \<mapsto> out)\<rparr>)
      in if ffmpeg_exit en \<noteq> 0
         then (Inl (Error (''ffmpeg failed with exit code '' @ showInt (ffmpeg_exit en)
                            @ '': '' @ ffmpeg_stderr en)), w2)
         else (Inr processedFilePath, w2))"

subsection \<open>External collaborators\<close>

text \<open>
  \<^verbatim>\<open>Bun.write(path, file)\<close> and \<^verbatim>\<open>Bun.file(path).delete()\<close>. A call that throws
  leaves the file system as it was.
\<close>

definition bunWrite :: "env \<Rightarrow> string \<Rightarrow> formFile \<Rightarrow> world \<Rightarrow> error option \<times> world" where
  "bunWrite en path f w =
     (let w1 = emit (FsWrite path) w
      in case write_outcome en of
           Some e \<Rightarrow> (Some e, w1)
         | None \<Rightarrow> (None, w1\<lparr>fs := (fs w1)(path \<mapsto> file_data f)\<rparr>))"

definition bunDelete :: "env \<Rightarrow> string \<Rightarrow> world \<Rightarrow> error option \<times> world" where
  "bunDelete en path w =
     (let w1 = emit (FsDelete path) w
      in case delete_outcome en of
           Some e \<Rightarrow> (Some e, w1)
         | None \<Rightarrow> (None, w1\<lparr>fs := (fs w1)(path := None)\<rparr>))"

text \<open>
  Modelled from the spec: \<^verbatim>\<open>getVideo\<close> and \<^verbatim>\<open>updateVideo\<close> of \<^verbatim>\<open>../db/videos\<close> are
  not among the sources; the record store is consumed as "getVideo(id) -> record" and
  "updateVideo(record)", which persists the record under its id or fails.
\<close>

definition getVideo :: "world \<Rightarrow> string \<Rightarrow> video option" where
  "getVideo w vid = db w vid"

definition updateVideo :: "env \<Rightarrow> video \<Rightarrow> world \<Rightarrow> error option \<times> world" where
  "updateVideo en v w =
     (let w1 = emit (DbUpdate v) w
      in case update_outcome en of
           Some e \<Rightarrow> (Some e, w1)
         | None \<Rightarrow> (None, w1\<lparr>db := (db w1)(video_id v \<mapsto> v)\<rparr>))"

text \<open>
  Modelled from the spec: \<^verbatim>\<open>uploadVideoToS3\<close> of \<^verbatim>\<open>../s3\<close> is not among the sources;
  the publisher is consumed as "put(key, bytes, contentType) -> URL or StorageError": it
  stores the bytes of the file at \<open>path\<close> under \<open>key\<close> or fails.
\<close>

definition uploadVideoToS3 ::
  "env \<Rightarrow> string \<Rightarrow> string \<Rightarrow> string \<Rightarrow> world \<Rightarrow> error option \<times> world" where
  "uploadVideoToS3 en key path mediaType w =
     (let w1 = emit (S3Upload key path mediaType) w
      in case s3_outcome en of
           Some e \<Rightarrow> (Some e, w1)
         | None \<Rightarrow> (None, w1\<lparr>s3 := (s3 w1)(key := fs w1 path)\<rparr>))"

text \<open>\<^verbatim>\<open>cfg.s3Client.file(key, ...).write(file)\<close> of the earlier variant.\<close>

definition s3ClientWrite :: "env \<Rightarrow> string \<Rightarrow> formFile \<Rightarrow> world \<Rightarrow> error option \<times> world" where
  "s3ClientWrite en key f w =
     (let w1 = emit (S3Write key) w
      in case s3_outcome en of
           Some e \<Rightarrow> (Some e, w1)
         | None \<Rightarrow> (None, w1\<lparr>s3 := (s3 w1)(key \<mapsto> file_data f)\<rparr>))"

definition respondWithJSON :: "nat \<Rightarrow> video option \<Rightarrow> response" where
  "respondWithJSON code p = \<lparr>status = code, payload = p\<rparr>"

subsection \<open>The primary-media handler (videos.ts)\<close>

text \<open>\<^verbatim>\<open>1 << 30\<close>, one gibibyte.\<close>

definition MAX_UPLOAD_SIZE :: nat where
  "MAX_UPLOAD_SIZE = push_bit 30 1"

text \<open>
  Lines 15 to 55 of \<^verbatim>\<open>handlerUploadVideo\<close>: the checks before anything is written,
  in the order of the source. They return the record read from the store and the file.
\<close>

definition videoUploadGate :: "env \<Rightarrow> request \<Rightarrow> world \<Rightarrow> error + (video \<times> formFile)" where
  "videoUploadGate en req w =
     (case videoId req of
        None \<Rightarrow> Inl (BadRequestError ''Invalid video ID'')
      | Some vid \<Rightarrow>
          if vid = [] then Inl (BadRequestError ''Invalid video ID'')
          else if \<not> validateUUID en vid then Inl (BadRequestError ''Invalid video ID format'')
          else (case authenticate en of
                  Inl e \<Rightarrow> Inl e
                | Inr uid \<Rightarrow>
                    (case getVideo w vid of
                       None \<Rightarrow> Inl (BadRequestError ''Video not found'')
                     | Some v \<Rightarrow>
                         if userID v \<noteq> uid
                         then Inl (UserForbiddenError ''You are not the owner of this video'')
                         else (case formData en of
                                 Inl e \<Rightarrow> Inl e
                               | Inr None \<Rightarrow> Inl (BadRequestError ''Invalid video file'')
                               | Inr (Some f) \<Rightarrow>
                                   if file_size f > MAX_UPLOAD_SIZE
                                   then Inl (BadRequestError
                                     (''Video file exceeds maximum size of ''
                                        @ showNat MAX_UPLOAD_SIZE @ '' bytes''))
                                   else if file_type f \<noteq> ''video/mp4''
                                   then Inl (BadRequestError
                                     (''Invalid Content-Type for video: '' @ file_type f
                                        @ ''. Only video/mp4 is supported.''))
                                   else Inr (v, f)))))"

text \<open>
  Lines 62 to 73, the body of the \<^verbatim>\<open>try\<close>: stage, probe, remux, upload, commit.
  It returns the record as it was handed to the store.
\<close>

definition uploadSteps ::
  "apiConfig \<Rightarrow> env \<Rightarrow> video \<Rightarrow> formFile \<Rightarrow> string \<Rightarrow> string \<Rightarrow> world \<Rightarrow> (error + video) \<times> world" where
  "uploadSteps cfg en v f fileKey tempPath w =
     (case bunWrite en tempPath f w of
        (Some e, w1) \<Rightarrow> (Inl e, w1)
      | (None, w1) \<Rightarrow>
          (case getVideoAspectRatio en tempPath w1 of
             (Inl e, w2) \<Rightarrow> (Inl e, w2)
           | (Inr aspectRatio, w2) \<Rightarrow>
               (case processVideoForFastStart en tempPath w2 of
                  (Inl e, w3) \<Rightarrow> (Inl e, w3)
                | (Inr processedPath, w3) \<Rightarrow>
                    (let fileKey' = aspectRatio @ ''/'' @ fileKey
                     in case uploadVideoToS3 en fileKey' processedPath (file_type f) w3 of
                          (Some e, w4) \<Rightarrow> (Inl e, w4)
                        | (None, w4) \<Rightarrow>
                            (let v' = v\<lparr>videoURL :=
                                         Some (''https://'' @ s3CfDistribution cfg @ ''/'' @ fileKey')\<rparr>
                             in case updateVideo en v' w4 of
                                  (Some e, w5) \<Rightarrow> (Inl e, w5)
                                | (None, w5) \<Rightarrow> (Inr v', w5))))))"

text \<open>
  Lines 74 to 81, the \<^verbatim>\<open>finally\<close>: the staged upload is deleted; a failure of the
  deletion is logged and swallowed.
\<close>

definition cleanup :: "env \<Rightarrow> string \<Rightarrow> world \<Rightarrow> world" where
  "cleanup en tempPath w =
     (case bunDelete en tempPath w of
        (Some e, w1) \<Rightarrow> emit (ConsoleError ''Error cleaning up temporary file'') w1
      | (None, w1) \<Rightarrow> w1)"

definition handlerUploadVideo ::
  "apiConfig \<Rightarrow> env \<Rightarrow> request \<Rightarrow> world \<Rightarrow> (error + response) \<times> world" where
  "handlerUploadVideo cfg en req w =
     (case videoUploadGate en req w of
        Inl e \<Rightarrow> (Inl e, w)
      | Inr (v, f) \<Rightarrow>
          (let fileKey = toHex (randomBytes en 32) @ ''.mp4'';
               tempPath = ''/tmp/'' @ fileKey
           in case uploadSteps cfg en v f fileKey tempPath w of
                (Inl e, w1) \<Rightarrow> (Inl e, cleanup en tempPath w1)
              | (Inr v', w1) \<Rightarrow> (Inr (respondWithJSON 200 (Some v')), cleanup en tempPath w1)))"

subsection \<open>The earlier variant of the primary-media handler\<close>

text \<open>
  The unnamed source file holds a variant of \<^verbatim>\<open>handlerUploadVideo\<close> with the same
  checks, which writes the uploaded file to the object store itself, without probing or
  remuxing, and answers with a \<^verbatim>\<open>null\<close> payload.
\<close>

definition directUploadSteps ::
  "apiConfig \<Rightarrow> env \<Rightarrow> video \<Rightarrow> formFile \<Rightarrow> string \<Rightarrow> string \<Rightarrow> world \<Rightarrow> (error + video) \<times> world" where
  "directUploadSteps cfg en v f fileKey tempPath w =
     (case bunWrite en tempPath f w of
        (Some e, w1) \<Rightarrow> (Inl e, w1)
      | (None, w1) \<Rightarrow>
          (case s3ClientWrite en fileKey f w1 of
             (Some e, w2) \<Rightarrow> (Inl e, w2)
           | (None, w2) \<Rightarrow>
               (let s3Url = ''https://'' @ s3Bucket cfg @ ''.s3.'' @ s3Region cfg
                              @ ''.amazonaws.com/'' @ fileKey;
                    v' = v\<lparr>videoURL := Some s3Url\<rparr>
                in case updateVideo en v' w2 of
                     (Some e, w3) \<Rightarrow> (Inl e, w3)
                   | (None, w3) \<Rightarrow> (Inr v', w3))))"

definition handlerUploadVideo_direct ::
  "apiConfig \<Rightarrow> env \<Rightarrow> request \<Rightarrow> world \<Rightarrow> (error + response) \<times> world" where
  "handlerUploadVideo_direct cfg en req w =
     (case videoUploadGate en req w of
        Inl e \<Rightarrow> (Inl e, w)
      | Inr (v, f) \<Rightarrow>
          (let fileKey = toHex (randomBytes en 32) @ ''.mp4'';
               tempPath = ''/tmp/'' @ fileKey
           in case directUploadSteps cfg en v f fileKey tempPath w of
                (Inl e, w1) \<Rightarrow> (Inl e, cleanup en tempPath w1)
              | (Inr v', w1) \<Rightarrow> (Inr (respondWithJSON 200 None), cleanup en tempPath w1)))"

subsection \<open>The thumbnail handler\<close>

text \<open>\<^verbatim>\<open>10 << 20\<close>, ten mebibytes.\<close>

definition MAX_THUMBNAIL_SIZE :: nat where
  "MAX_THUMBNAIL_SIZE = push_bit 20 10"

text \<open>
  The checks of \<^verbatim>\<open>handlerUploadThumbnail\<close>, in the order of the source. They return
  the video id, the record read from the store and the file.
\<close>

definition thumbnailUploadGate ::
  "env \<Rightarrow> request \<Rightarrow> world \<Rightarrow> error + (string \<times> video \<times> formFile)" where
  "thumbnailUploadGate en req w =
     (case videoId req of
        None \<Rightarrow> Inl (BadRequestError ''Invalid video ID'')
      | Some vid \<Rightarrow>
          if vid = [] then Inl (BadRequestError ''Invalid video ID'')
          else (case authenticate en of
                  Inl e \<Rightarrow> Inl e
                | Inr uid \<Rightarrow>
                    (case getVideo w vid of
                       None \<Rightarrow> Inl (NotFoundError ''Couldn't find video'')
                     | Some v \<Rightarrow>
                         if userID v \<noteq> uid
                         then Inl (UserForbiddenError ''You are not the owner of this video'')
                         else (case formData en of
                                 Inl e \<Rightarrow> Inl e
                               | Inr None \<Rightarrow> Inl (BadRequestError ''Invalid thumbnail file'')
                               | Inr (Some f) \<Rightarrow>
                                   if file_size f > MAX_THUMBNAIL_SIZE
                                   then Inl (BadRequestError
                                     (''Thumbnail file exceeds maximum size of ''
                                        @ showNat MAX_THUMBNAIL_SIZE @ '' bytes''))
                                   else if file_type f = []
                                   then Inl (BadRequestError ''Missing Content-Type for thumbnail'')
                                   else Inr (vid, v, f)))))"

definition handlerUploadThumbnail ::
  "apiConfig \<Rightarrow> env \<Rightarrow> request \<Rightarrow> world \<Rightarrow> (error + response) \<times> world" where
  "handlerUploadThumbnail cfg en req w =
     (case thumbnailUploadGate en req w of
        Inl e \<Rightarrow> (Inl e, w)
      | Inr (vid, v, f) \<Rightarrow>
          (let ext = mediaTypeToExt (file_type f);
               filename = vid @ ext;
               assetDiskPath = getAssetDiskPath en cfg filename
           in case bunWrite en assetDiskPath f w of
                (Some e, w1) \<Rightarrow> (Inl e, w1)
              | (None, w1) \<Rightarrow>
                  (let urlPath = getAssetUrl cfg filename;
                       v' = v\<lparr>thumbnailURL := Some urlPath\<rparr>
                   in case updateVideo en v' w1 of
                        (Some e, w2) \<Rightarrow> (Inl e, w2)
                      | (None, w2) \<Rightarrow> (Inr (respondWithJSON 200 (Some v')), w2))))"

subsection \<open>The classification rule as the specification words it\<close>

text \<open>
  The decision rule of the specification over exact rationals: \<open>landscape\<close> if the ratio
  is less than \<open>0.1\<close> away from \<open>16/9\<close>, \<open>portrait\<close> if it is less than \<open>0.1\<close> away
  from \<open>9/16\<close>, else \<open>other\<close>.
\<close>

definition specAspectClass :: "int \<Rightarrow> int \<Rightarrow> string" where
  "specAspectClass w h =
     (let ratio = (of_int w :: rat) / of_int h
      in if \<bar>ratio - 16 / 9\<bar> < 1 / 10 then ''landscape''
         else if \<bar>ratio - 9 / 16\<bar> < 1 / 10 then ''portrait''
         else ''other'')"

subsection \<open>Sample runs\<close>

text \<open>
  A configuration, a stored video owned by \<open>u1\<close>, an upload of a 1920 by 1080 video in
  which every collaborator succeeds, and variations of it. The random source yields zero
  bytes, so the file key is 64 zeros.
\<close>

definition sample_key :: string where
  "sample_key = ''0000000000000000000000000000000000000000000000000000000000000000''"

definition sample_cfg :: apiConfig where
  "sample_cfg = \<lparr>jwtSecret = ''secret'', s3CfDistribution = ''d111.cloudfront.net'',
     s3Bucket = ''bucket'', s3Region = ''us-east-1'', assetsRoot = ''/assets'', port = ''8091''\<rparr>"

definition sample_video :: video where
  "sample_video = \<lparr>video_id = ''v1'', userID = ''u1'', videoURL = None, thumbnailURL = None,
     other_fields = [(''title'', ''Holiday'')]\<rparr>"

definition sample_file :: formFile where
  "sample_file = \<lparr>file_size = 3, file_type = ''video/mp4'', file_data = [1, 2, 3]\<rparr>"

definition sample_thumbnail :: formFile where
  "sample_thumbnail = \<lparr>file_size = 3, file_type = ''image/png'', file_data = [7, 8, 9]\<rparr>"

definition sample_env :: env where
  "sample_env = \<lparr>validateUUID = (\<lambda>s. True), authenticate = Inr ''u1'',
     formData = Inr (Some sample_file), random = (\<lambda>n. 0), write_outcome = None,
     ffprobe_exit = 0, ffprobe_stderr = [],
     ffprobe_json = Inr (Some [\<lparr>width = Some 1920, height = Some 1080\<rparr>]),
     ffmpeg_exit = 0, ffmpeg_stderr = [], ffmpeg_output = Some [4, 5, 6],
     s3_outcome = None, update_outcome = None, delete_outcome = None,
     path_join = (\<lambda>a b. a @ ''/'' @ b)\<rparr>"

definition sample_req :: request where
  "sample_req = \<lparr>videoId = Some ''v1''\<rparr>"

definition sample_world :: world where
  "sample_world = \<lparr>fs = Map.empty, db = [''v1'' \<mapsto> sample_video], s3 = Map.empty, trace = []\<rparr>"

text \<open>The remux subprocess exits with code 1 after writing its output file.\<close>

definition remux_failing_env :: env where
  "remux_failing_env = sample_env\<lparr>ffmpeg_exit := 1\<rparr>"

text \<open>A thumbnail upload, and one in which the record store rejects the update.\<close>

definition thumbnail_env :: env where
  "thumbnail_env = sample_env\<lparr>formData := Inr (Some sample_thumbnail)\<rparr>"

definition commit_failing_env :: env where
  "commit_failing_env = thumbnail_env\<lparr>update_outcome := Some (Error ''database is locked'')\<rparr>"

text \<open>An upload of a \<open>video/webm\<close> file, by the owner and by another user.\<close>

definition webm_env :: env where
  "webm_env = sample_env\<lparr>formData := Inr (Some (sample_file\<lparr>file_type := ''video/webm''\<rparr>))\<rparr>"

definition stranger_env :: env where
  "stranger_env = webm_env\<lparr>authenticate := Inr ''u2''\<rparr>"

text \<open>A record store without the video.\<close>

definition empty_world :: world where
  "empty_world = sample_world\<lparr>db := Map.empty\<rparr>"

definition sample_run :: "(error + response) \<times> world" where
  "sample_run = handlerUploadVideo sample_cfg sample_env sample_req sample_world"

definition remux_failing_run :: "(error + response) \<times> world" where
  "remux_failing_run = handlerUploadVideo sample_cfg remux_failing_env sample_req sample_world"

definition direct_run :: "(error + response) \<times> world" where
  "direct_run = handlerUploadVideo_direct sample_cfg sample_env sample_req sample_world"

definition thumbnail_run :: "(error + response) \<times> world" where
  "thumbnail_run = handlerUploadThumbnail sample_cfg thumbnail_env sample_req sample_world"

definition commit_failing_run :: "(error + response) \<times> world" where
  "commit_failing_run = handlerUploadThumbnail sample_cfg commit_failing_env sample_req sample_world"

section \<open>Properties\<close>

subsection \<open>Splitting a content type\<close>

lemma split_sep_nonempty: "split_sep c s \<noteq> []"
  by (induction s) (auto split: list.splits)

lemma split_sep_absent: "c \<notin> set u \<Longrightarrow> split_sep c u = [u]"
  by (induction u) auto

lemma split_sep_first: "c \<notin> set t \<Longrightarrow> split_sep c (t @ c # u) = t # split_sep c u"
  by (induction t) auto

lemma length_split_sep: "length (split_sep c s) = Suc (count_list s c)"
  by (induction s) (auto split: list.splits simp: split_sep_nonempty)

lemma count_one_decompose:
  "count_list s c = 1 \<Longrightarrow> \<exists>t u. s = t @ c # u \<and> c \<notin> set t \<and> c \<notin> set u"
proof (induction s)
  case Nil
  then show ?case by simp
next
  case (Cons x xs)
  show ?case
  proof (cases "x = c")
    case True
    with Cons.prems have "count_list xs c = 0" by simp
    then have "c \<notin> set xs" by (simp add: count_list_0_iff)
    with True have "x # xs = [] @ c # xs \<and> c \<notin> set [] \<and> c \<notin> set xs" by simp
    then show ?thesis by blast
  next
    case False
    with Cons.prems have "count_list xs c = 1" by simp
    from Cons.IH [OF this] obtain t u where "xs = t @ c # u" "c \<notin> set t" "c \<notin> set u" by blast
    with False have "x # xs = (x # t) @ c # u \<and> c \<notin> set (x # t) \<and> c \<notin> set u" by simp
    then show ?thesis by blast
  qed
qed

text \<open>
  Claim C8. For a content type \<open>type/subtype\<close> with exactly one \<open>/\<close>, between two
  halves without a \<open>/\<close>, \<open>mediaTypeToExt\<close> returns \<open>.subtype\<close>; for a string with no
  \<open>/\<close> or with more than one it returns \<open>.bin\<close>. Every string with exactly one \<open>/\<close> is
  of the first form, so the two cases cover every string.
\<close>

theorem mediaTypeToExt_subtype_or_bin:
  "(CHR ''/'' \<notin> set t \<and> CHR ''/'' \<notin> set u \<longrightarrow> mediaTypeToExt (t @ ''/'' @ u) = ''.'' @ u)
   \<and> (count_list s (CHR ''/'') \<noteq> 1 \<longrightarrow> mediaTypeToExt s = ''.bin'')
   \<and> (count_list s (CHR ''/'') = 1 \<longrightarrow>
        (\<exists>t u. s = t @ ''/'' @ u \<and> CHR ''/'' \<notin> set t \<and> CHR ''/'' \<notin> set u))"
proof (intro conjI impI)
  assume "CHR ''/'' \<notin> set t \<and> CHR ''/'' \<notin> set u"
  then have "split_sep (CHR ''/'') (t @ ''/'' @ u) = [t, u]"
    by (simp add: split_sep_first split_sep_absent)
  then show "mediaTypeToExt (t @ ''/'' @ u) = ''.'' @ u"
    by (simp add: mediaTypeToExt_def)
next
  assume "count_list s (CHR ''/'') \<noteq> 1"
  then have "length (split_sep (CHR ''/'') s) \<noteq> 2"
    by (simp add: length_split_sep)
  then show "mediaTypeToExt s = ''.bin''"
    by (simp add: mediaTypeToExt_def)
next
  assume "count_list s (CHR ''/'') = 1"
  from count_one_decompose [OF this]
  show "\<exists>t u. s = t @ ''/'' @ u \<and> CHR ''/'' \<notin> set t \<and> CHR ''/'' \<notin> set u" by simp
qed

theorem mediaTypeToExt_subtype_or_bin_witness:
  "mediaTypeToExt ''image/png'' = ''.png'' \<and> mediaTypeToExt ''a/b/c'' = ''.bin''
   \<and> mediaTypeToExt ''octet'' = ''.bin''"
  using mediaTypeToExt_subtype_or_bin [of "''image''" "''png''" "''a/b/c''"]
        mediaTypeToExt_subtype_or_bin [of "''image''" "''png''" "''octet''"]
  by simp

subsection \<open>The steps of the pipeline\<close>

lemmas step_defs = bunWrite_def bunDelete_def updateVideo_def uploadVideoToS3_def s3ClientWrite_def
  getVideoAspectRatio_def processVideoForFastStart_def emit_def getVideo_def cleanup_def
  firstStream_def falsy_def respondWithJSON_def

lemma events_self [simp]: "events w w = []"
  by (simp add: events_def)

lemma getVideoAspectRatio_snd: "snd (getVideoAspectRatio en p w) = emit (SpawnFfprobe p) w"
  by (simp add: getVideoAspectRatio_def Let_def split: sum.splits option.splits)

lemma getVideoAspectRatio_fst_indep:
  "fst (getVideoAspectRatio en p w) = fst (getVideoAspectRatio en p' w')"
  by (simp add: getVideoAspectRatio_def Let_def split: sum.splits option.splits)



lemma processVideoForFastStart_fst:
  "fst (processVideoForFastStart en p w) =
     (if ffmpeg_exit en \<noteq> 0
      then Inl (Error (''ffmpeg failed with exit code '' @ showInt (ffmpeg_exit en) @ '': '' @ ffmpeg_stderr en))
      else Inr (p @ ''.processed''))"
  by (simp add: processVideoForFastStart_def Let_def)

lemma processVideoForFastStart_snd:
  "snd (processVideoForFastStart en p w) =
     w\<lparr>trace := trace w @ [SpawnFfmpeg p (p @ ''.processed'')],
       fs := (case ffmpeg_output en of None \<Rightarrow> fs w | Some out \<Rightarrow> (fs w)(p @ ''.processed'' \<mapsto> out))\<rparr>"
  by (simp add: processVideoForFastStart_def Let_def emit_def split: option.splits)

text \<open>
  The body of the \<^verbatim>\<open>try\<close>, by the step at which it ends: its result and the world it
  leaves to the \<^verbatim>\<open>finally\<close>.
\<close>

lemma uploadSteps_elim:
  assumes "uploadSteps cfg en v f key tmp w = (r, w1)"
  obtains
    (write_failed) e where "write_outcome en = Some e" "r = Inl e"
      "w1 = w\<lparr>trace := trace w @ [FsWrite tmp]\<rparr>"
  | (probe_failed) e where "write_outcome en = None" "fst (getVideoAspectRatio en tmp w) = Inl e" "r = Inl e"
      "w1 = w\<lparr>trace := trace w @ [FsWrite tmp, SpawnFfprobe tmp], fs := (fs w)(tmp \<mapsto> file_data f)\<rparr>"
  | (remux_failed) c where "write_outcome en = None" "fst (getVideoAspectRatio en tmp w) = Inr c"
      "ffmpeg_exit en \<noteq> 0"
      "r = Inl (Error (''ffmpeg failed with exit code '' @ showInt (ffmpeg_exit en) @ '': '' @ ffmpeg_stderr en))"
      "w1 = w\<lparr>trace := trace w @ [FsWrite tmp, SpawnFfprobe tmp, SpawnFfmpeg tmp (tmp @ ''.processed'')],
              fs := (case ffmpeg_output en of None \<Rightarrow> (fs w)(tmp \<mapsto> file_data f)
                     | Some out \<Rightarrow> (fs w)(tmp \<mapsto> file_data f, tmp @ ''.processed'' \<mapsto> out))\<rparr>"
  | (upload_failed) c e where "write_outcome en = None" "fst (getVideoAspectRatio en tmp w) = Inr c"
      "ffmpeg_exit en = 0" "s3_outcome en = Some e" "r = Inl e"
      "w1 = w\<lparr>trace := trace w @ [FsWrite tmp, SpawnFfprobe tmp, SpawnFfmpeg tmp (tmp @ ''.processed''),
                                   S3Upload (c @ ''/'' @ key) (tmp @ ''.processed'') (file_type f)],
              fs := (case ffmpeg_output en of None \<Rightarrow> (fs w)(tmp \<mapsto> file_data f)
                     | Some out \<Rightarrow> (fs w)(tmp \<mapsto> file_data f, tmp @ ''.processed'' \<mapsto> out))\<rparr>"
  | (commit_failed) c e where "write_outcome en = None" "fst (getVideoAspectRatio en tmp w) = Inr c"
      "ffmpeg_exit en = 0" "s3_outcome en = None" "update_outcome en = Some e" "r = Inl e"
      "w1 = w\<lparr>trace := trace w @ [FsWrite tmp, SpawnFfprobe tmp, SpawnFfmpeg tmp (tmp @ ''.processed''),
                                   S3Upload (c @ ''/'' @ key) (tmp @ ''.processed'') (file_type f),
                                   DbUpdate (v\<lparr>videoURL := Some (''https://'' @ s3CfDistribution cfg @ ''/'' @ c @ ''/'' @ key)\<rparr>)],
              fs := (case ffmpeg_output en of None \<Rightarrow> (fs w)(tmp \<mapsto> file_data f)
                     | Some out \<Rightarrow> (fs w)(tmp \<mapsto> file_data f, tmp @ ''.processed'' \<mapsto> out)),
              s3 := (s3 w)(c @ ''/'' @ key := (case ffmpeg_output en of None \<Rightarrow> fs w (tmp @ ''.processed'') | Some out \<Rightarrow> Some out))\<rparr>"
  | (committed) c where "write_outcome en = None" "fst (getVideoAspectRatio en tmp w) = Inr c"
      "ffmpeg_exit en = 0" "s3_outcome en = None" "update_outcome en = None"
      "r = Inr (v\<lparr>videoURL := Some (''https://'' @ s3CfDistribution cfg @ ''/'' @ c @ ''/'' @ key)\<rparr>)"
      "w1 = w\<lparr>trace := trace w @ [FsWrite tmp, SpawnFfprobe tmp, SpawnFfmpeg tmp (tmp @ ''.processed''),
                                   S3Upload (c @ ''/'' @ key) (tmp @ ''.processed'') (file_type f),
                                   DbUpdate (v\<lparr>videoURL := Some (''https://'' @ s3CfDistribution cfg @ ''/'' @ c @ ''/'' @ key)\<rparr>)],
              fs := (case ffmpeg_output en of None \<Rightarrow> (fs w)(tmp \<mapsto> file_data f)
                     | Some out \<Rightarrow> (fs w)(tmp \<mapsto> file_data f, tmp @ ''.processed'' \<mapsto> out)),
              s3 := (s3 w)(c @ ''/'' @ key := (case ffmpeg_output en of None \<Rightarrow> fs w (tmp @ ''.processed'') | Some out \<Rightarrow> Some out)),
              db := (db w)(video_id v \<mapsto> v\<lparr>videoURL := Some (''https://'' @ s3CfDistribution cfg @ ''/'' @ c @ ''/'' @ key)\<rparr>)\<rparr>"
proof (cases "write_outcome en")
  case (Some e)
  with assms have "r = Inl e" "w1 = w\<lparr>trace := trace w @ [FsWrite tmp]\<rparr>"
    by (auto simp: uploadSteps_def bunWrite_def emit_def Let_def)
  with Some show ?thesis by (rule write_failed)
next
  case None
  define wa where "wa = w\<lparr>trace := trace w @ [FsWrite tmp], fs := (fs w)(tmp \<mapsto> file_data f)\<rparr>"
  have wr: "bunWrite en tmp f w = (None, wa)"
    using None by (simp add: bunWrite_def emit_def Let_def wa_def)
  define wb where "wb = wa\<lparr>trace := trace wa @ [SpawnFfprobe tmp]\<rparr>"
  have pr: "getVideoAspectRatio en tmp wa = (fst (getVideoAspectRatio en tmp w), wb)"
    using getVideoAspectRatio_snd [of en tmp wa] getVideoAspectRatio_fst_indep [of en tmp wa tmp w]
    by (simp add: prod_eq_iff emit_def wb_def)
  show ?thesis
  proof (cases "fst (getVideoAspectRatio en tmp w)")
    case (Inl e)
    with assms wr pr have "r = Inl e" "w1 = wb"
      by (auto simp: uploadSteps_def)
    then show ?thesis using None Inl
      by (intro probe_failed [of e]) (simp_all add: wa_def wb_def)
  next
    case (Inr c)
    define wc where "wc = snd (processVideoForFastStart en tmp wb)"
    have wc_eq: "wc = w\<lparr>trace := trace w @ [FsWrite tmp, SpawnFfprobe tmp, SpawnFfmpeg tmp (tmp @ ''.processed'')],
              fs := (case ffmpeg_output en of None \<Rightarrow> (fs w)(tmp \<mapsto> file_data f)
                     | Some out \<Rightarrow> (fs w)(tmp \<mapsto> file_data f, tmp @ ''.processed'' \<mapsto> out))\<rparr>"
      by (simp add: wc_def processVideoForFastStart_snd wb_def wa_def split: option.splits)
    have rm: "processVideoForFastStart en tmp wb = (fst (processVideoForFastStart en tmp wb), wc)"
      by (simp add: wc_def)
    show ?thesis
    proof (cases "ffmpeg_exit en = 0")
      case False
      with assms wr pr Inr rm have "r = Inl (Error (''ffmpeg failed with exit code '' @ showInt (ffmpeg_exit en) @ '': '' @ ffmpeg_stderr en))" "w1 = wc"
        by (auto simp: uploadSteps_def processVideoForFastStart_fst)
      then show ?thesis using None Inr False wc_eq
        by (intro remux_failed [of c]) simp_all
    next
      case True
      then have rm': "processVideoForFastStart en tmp wb = (Inr (tmp @ ''.processed''), wc)"
        using rm by (simp add: processVideoForFastStart_fst)
      have fswc: "fs wc (tmp @ ''.processed'') =
          (case ffmpeg_output en of None \<Rightarrow> fs w (tmp @ ''.processed'') | Some out \<Rightarrow> Some out)"
        by (simp add: wc_eq split: option.splits)
      define k where "k = c @ ''/'' @ key"
      define wd where "wd = wc\<lparr>trace := trace wc @ [S3Upload k (tmp @ ''.processed'') (file_type f)]\<rparr>"
      define v' where "v' = v\<lparr>videoURL := Some (''https://'' @ s3CfDistribution cfg @ ''/'' @ k)\<rparr>"
      have steps: "uploadSteps cfg en v f key tmp w =
          (case uploadVideoToS3 en k (tmp @ ''.processed'') (file_type f) wc of
             (Some e, w4) \<Rightarrow> (Inl e, w4)
           | (None, w4) \<Rightarrow> (case updateVideo en v' w4 of (Some e, w5) \<Rightarrow> (Inl e, w5) | (None, w5) \<Rightarrow> (Inr v', w5)))"
        using wr pr Inr rm' by (simp add: uploadSteps_def Let_def k_def v'_def split: prod.splits option.splits)
      show ?thesis
      proof (cases "s3_outcome en")
        case (Some e)
        then have "uploadVideoToS3 en k (tmp @ ''.processed'') (file_type f) wc = (Some e, wd)"
          by (simp add: uploadVideoToS3_def emit_def Let_def wd_def)
        with assms steps have "r = Inl e" "w1 = wd" by simp_all
        then show ?thesis using None Inr True Some
          by (intro upload_failed [of c e]) (simp_all add: wd_def wc_eq k_def)
      next
        case s3ok: None
        define we where "we = wd\<lparr>s3 := (s3 w)(k := (case ffmpeg_output en of None \<Rightarrow> fs w (tmp @ ''.processed'') | Some out \<Rightarrow> Some out))\<rparr>"
        have up: "uploadVideoToS3 en k (tmp @ ''.processed'') (file_type f) wc = (None, we)"
          using s3ok fswc by (simp add: uploadVideoToS3_def emit_def Let_def wd_def we_def wc_eq)
        define wf where "wf = we\<lparr>trace := trace we @ [DbUpdate v']\<rparr>"
        show ?thesis
        proof (cases "update_outcome en")
          case (Some e)
          then have "updateVideo en v' we = (Some e, wf)"
            by (simp add: updateVideo_def emit_def Let_def wf_def)
          with assms steps up have "r = Inl e" "w1 = wf" by simp_all
          then show ?thesis using None Inr True s3ok Some
            by (intro commit_failed [of c e]) (simp_all add: wf_def we_def wd_def wc_eq k_def v'_def)
        next
          case dbok: None
          then have "updateVideo en v' we = (None, wf\<lparr>db := (db w)(video_id v \<mapsto> v')\<rparr>)"
            by (simp add: updateVideo_def emit_def Let_def wf_def we_def wd_def wc_eq v'_def)
          with assms steps up have "r = Inr v'" "w1 = wf\<lparr>db := (db w)(video_id v \<mapsto> v')\<rparr>" by simp_all
          then show ?thesis using None Inr True s3ok dbok
            by (intro committed [of c]) (simp_all add: wf_def we_def wd_def wc_eq k_def v'_def)
        qed
      qed
    qed
  qed
qed

lemma cleanup_trace:
  "trace (cleanup en tmp w1) =
     trace w1 @ FsDelete tmp #
       (case delete_outcome en of None \<Rightarrow> [] | Some e \<Rightarrow> [ConsoleError ''Error cleaning up temporary file''])"
  by (simp add: cleanup_def bunDelete_def emit_def Let_def split: option.splits)

lemma cleanup_fs:
  "fs (cleanup en tmp w1) = (case delete_outcome en of None \<Rightarrow> (fs w1)(tmp := None) | Some e \<Rightarrow> fs w1)"
  by (simp add: cleanup_def bunDelete_def emit_def Let_def split: option.splits)

lemma cleanup_db: "db (cleanup en tmp w1) = db w1"
  by (simp add: cleanup_def bunDelete_def emit_def Let_def split: option.splits)

lemma cleanup_s3: "s3 (cleanup en tmp w1) = s3 w1"
  by (simp add: cleanup_def bunDelete_def emit_def Let_def split: option.splits)

subsection \<open>The runs of the handlers\<close>

lemma videoUploadGate_Inr:
  assumes "videoUploadGate en req w = Inr (v, f)"
  shows "\<exists>vid. videoId req = Some vid \<and> vid \<noteq> [] \<and> validateUUID en vid \<and> authenticate en = Inr (userID v)
     \<and> getVideo w vid = Some v \<and> formData en = Inr (Some f) \<and> file_size f \<le> MAX_UPLOAD_SIZE
     \<and> file_type f = ''video/mp4''"
  using assms
  by (auto simp: videoUploadGate_def split: option.splits if_splits sum.splits)

lemma thumbnailUploadGate_Inr:
  assumes "thumbnailUploadGate en req w = Inr (vid, v, f)"
  shows "videoId req = Some vid \<and> vid \<noteq> [] \<and> authenticate en = Inr (userID v)
     \<and> getVideo w vid = Some v \<and> formData en = Inr (Some f) \<and> file_size f \<le> MAX_THUMBNAIL_SIZE
     \<and> file_type f \<noteq> []"
  using assms
  by (auto simp: thumbnailUploadGate_def split: option.splits if_splits sum.splits)

text \<open>
  Every run of the handler, by the stage at which it ends: the result, the events of the
  run and the stores when the handler returns.
\<close>

lemma handlerUploadVideo_cases:
  fixes cfg en req w
  defines "key \<equiv> toHex (randomBytes en 32) @ ''.mp4''"
  defines "tmp \<equiv> ''/tmp/'' @ toHex (randomBytes en 32) @ ''.mp4''"
  defines "del \<equiv> FsDelete tmp #
     (case delete_outcome en of None \<Rightarrow> [] | Some e \<Rightarrow> [ConsoleError ''Error cleaning up temporary file''])"
  defines "swept \<equiv> \<lambda>F. case delete_outcome en of None \<Rightarrow> F(tmp := None) | Some e \<Rightarrow> F"
  defines "remuxed \<equiv> \<lambda>F. case ffmpeg_output en of None \<Rightarrow> F | Some out \<Rightarrow> F(tmp @ ''.processed'' \<mapsto> out)"
  assumes run: "handlerUploadVideo cfg en req w = (r, w')"
  obtains
    (rejected) e where "videoUploadGate en req w = Inl e" "r = Inl e" "w' = w"
  | (write_failed) v f e where "videoUploadGate en req w = Inr (v, f)"
      "write_outcome en = Some e" "r = Inl e"
      "events w w' = FsWrite tmp # del"
      "fs w' = swept (fs w)" "db w' = db w" "s3 w' = s3 w"
  | (probe_failed) v f e where "videoUploadGate en req w = Inr (v, f)"
      "write_outcome en = None" "fst (getVideoAspectRatio en tmp w) = Inl e" "r = Inl e"
      "events w w' = FsWrite tmp # SpawnFfprobe tmp # del"
      "fs w' = swept ((fs w)(tmp \<mapsto> file_data f))" "db w' = db w" "s3 w' = s3 w"
  | (remux_failed) v f c where "videoUploadGate en req w = Inr (v, f)"
      "write_outcome en = None" "fst (getVideoAspectRatio en tmp w) = Inr c" "ffmpeg_exit en \<noteq> 0"
      "r = Inl (Error (''ffmpeg failed with exit code '' @ showInt (ffmpeg_exit en) @ '': '' @ ffmpeg_stderr en))"
      "events w w' = FsWrite tmp # SpawnFfprobe tmp # SpawnFfmpeg tmp (tmp @ ''.processed'') # del"
      "fs w' = swept (remuxed ((fs w)(tmp \<mapsto> file_data f)))" "db w' = db w" "s3 w' = s3 w"
  | (upload_failed) v f c e where "videoUploadGate en req w = Inr (v, f)"
      "write_outcome en = None" "fst (getVideoAspectRatio en tmp w) = Inr c" "ffmpeg_exit en = 0"
      "s3_outcome en = Some e" "r = Inl e"
      "events w w' = FsWrite tmp # SpawnFfprobe tmp # SpawnFfmpeg tmp (tmp @ ''.processed'')
         # S3Upload (c @ ''/'' @ key) (tmp @ ''.processed'') (file_type f) # del"
      "fs w' = swept (remuxed ((fs w)(tmp \<mapsto> file_data f)))" "db w' = db w" "s3 w' = s3 w"
  | (commit_failed) v f c e where "videoUploadGate en req w = Inr (v, f)"
      "write_outcome en = None" "fst (getVideoAspectRatio en tmp w) = Inr c" "ffmpeg_exit en = 0"
      "s3_outcome en = None" "update_outcome en = Some e" "r = Inl e"
      "events w w' = FsWrite tmp # SpawnFfprobe tmp # SpawnFfmpeg tmp (tmp @ ''.processed'')
         # S3Upload (c @ ''/'' @ key) (tmp @ ''.processed'') (file_type f)
         # DbUpdate (v\<lparr>videoURL := Some (''https://'' @ s3CfDistribution cfg @ ''/'' @ c @ ''/'' @ key)\<rparr>) # del"
      "fs w' = swept (remuxed ((fs w)(tmp \<mapsto> file_data f)))" "db w' = db w"
  | (committed) v f c where "videoUploadGate en req w = Inr (v, f)"
      "write_outcome en = None" "fst (getVideoAspectRatio en tmp w) = Inr c" "ffmpeg_exit en = 0"
      "s3_outcome en = None" "update_outcome en = None"
      "r = Inr (respondWithJSON 200
             (Some (v\<lparr>videoURL := Some (''https://'' @ s3CfDistribution cfg @ ''/'' @ c @ ''/'' @ key)\<rparr>)))"
      "events w w' = FsWrite tmp # SpawnFfprobe tmp # SpawnFfmpeg tmp (tmp @ ''.processed'')
         # S3Upload (c @ ''/'' @ key) (tmp @ ''.processed'') (file_type f)
         # DbUpdate (v\<lparr>videoURL := Some (''https://'' @ s3CfDistribution cfg @ ''/'' @ c @ ''/'' @ key)\<rparr>) # del"
      "fs w' = swept (remuxed ((fs w)(tmp \<mapsto> file_data f)))"
      "db w' = (db w)(video_id v \<mapsto>
                  v\<lparr>videoURL := Some (''https://'' @ s3CfDistribution cfg @ ''/'' @ c @ ''/'' @ key)\<rparr>)"
proof (cases "videoUploadGate en req w")
  case (Inl e)
  with run have "r = Inl e" "w' = w" by (simp_all add: handlerUploadVideo_def)
  with Inl show ?thesis by (rule rejected)
next
  case (Inr vf)
  obtain v f where vf: "vf = (v, f)" by (cases vf)
  obtain r1 w1 where st: "uploadSteps cfg en v f key tmp w = (r1, w1)" by (cases "uploadSteps cfg en v f key tmp w")
  with run Inr vf have r: "r = (case r1 of Inl e \<Rightarrow> Inl e | Inr v' \<Rightarrow> Inr (respondWithJSON 200 (Some v')))"
    and w': "w' = cleanup en tmp w1"
    by (auto simp: handlerUploadVideo_def Let_def key_def tmp_def split: sum.splits)
  have ev: "events w w' = evs @ del" if "trace w1 = trace w @ evs" for evs
    using that by (simp add: w' events_def cleanup_trace del_def)
  have fs': "fs w' = swept (fs w1)" and db': "db w' = db w1" and s3': "s3 w' = s3 w1"
    by (simp_all add: w' cleanup_fs cleanup_db cleanup_s3 swept_def)
  from st show ?thesis
  proof (cases rule: uploadSteps_elim)
    case (write_failed e)
    then show ?thesis using Inr vf r fs' db' s3'
      by (intro that(2) [of v f e]) (simp_all add: ev)
  next
    case (probe_failed e)
    then show ?thesis using Inr vf r fs' db' s3'
      by (intro that(3) [of v f e]) (simp_all add: ev)
  next
    case (remux_failed c)
    then show ?thesis using Inr vf r fs' db' s3'
      by (intro that(4) [of v f c]) (simp_all add: ev remuxed_def split: option.splits)
  next
    case (upload_failed c e)
    then show ?thesis using Inr vf r fs' db' s3'
      by (intro that(5) [of v f c e]) (simp_all add: ev remuxed_def split: option.splits)
  next
    case (commit_failed c e)
    then show ?thesis using Inr vf r fs' db' s3'
      by (intro that(6) [of v f c e]) (simp_all add: ev remuxed_def split: option.splits)
  next
    case (committed c)
    then show ?thesis using Inr vf r fs' db' s3'
      by (intro that(7) [of v f c]) (simp_all add: ev remuxed_def split: option.splits)
  qed
qed

lemma handlerUploadThumbnail_cases:
  assumes run: "handlerUploadThumbnail cfg en req w = (r, w')"
  obtains
    (rejected) e where "thumbnailUploadGate en req w = Inl e" "r = Inl e" "w' = w"
  | (write_failed) vid v f e where "thumbnailUploadGate en req w = Inr (vid, v, f)"
      "write_outcome en = Some e" "r = Inl e"
      "events w w' = [FsWrite (getAssetDiskPath en cfg (vid @ mediaTypeToExt (file_type f)))]"
      "fs w' = fs w" "db w' = db w"
  | (commit_failed) vid v f e where "thumbnailUploadGate en req w = Inr (vid, v, f)"
      "write_outcome en = None" "update_outcome en = Some e" "r = Inl e"
      "events w w' = [FsWrite (getAssetDiskPath en cfg (vid @ mediaTypeToExt (file_type f))),
         DbUpdate (v\<lparr>thumbnailURL := Some (getAssetUrl cfg (vid @ mediaTypeToExt (file_type f)))\<rparr>)]"
      "fs w' = (fs w)(getAssetDiskPath en cfg (vid @ mediaTypeToExt (file_type f)) \<mapsto> file_data f)"
      "db w' = db w"
  | (committed) vid v f where "thumbnailUploadGate en req w = Inr (vid, v, f)"
      "write_outcome en = None" "update_outcome en = None"
      "r = Inr (respondWithJSON 200
             (Some (v\<lparr>thumbnailURL := Some (getAssetUrl cfg (vid @ mediaTypeToExt (file_type f)))\<rparr>)))"
      "events w w' = [FsWrite (getAssetDiskPath en cfg (vid @ mediaTypeToExt (file_type f))),
         DbUpdate (v\<lparr>thumbnailURL := Some (getAssetUrl cfg (vid @ mediaTypeToExt (file_type f)))\<rparr>)]"
      "fs w' = (fs w)(getAssetDiskPath en cfg (vid @ mediaTypeToExt (file_type f)) \<mapsto> file_data f)"
      "db w' = (db w)(video_id v \<mapsto>
                  v\<lparr>thumbnailURL := Some (getAssetUrl cfg (vid @ mediaTypeToExt (file_type f)))\<rparr>)"
proof (cases "thumbnailUploadGate en req w")
  case (Inl e)
  with run have "r = Inl e" "w' = w" by (simp_all add: handlerUploadThumbnail_def)
  with Inl show ?thesis by (rule rejected)
next
  case (Inr g)
  obtain vid v f where g: "g = (vid, v, f)" by (cases g)
  show ?thesis
  proof (cases "write_outcome en")
    case (Some e)
    with run Inr g show ?thesis
      by (intro write_failed [of vid v f e])
         (auto simp: handlerUploadThumbnail_def Let_def bunWrite_def emit_def events_def)
  next
    case None
    show ?thesis
    proof (cases "update_outcome en")
      case (Some e)
      with run Inr g None show ?thesis
        by (intro commit_failed [of vid v f e])
           (auto simp: handlerUploadThumbnail_def Let_def bunWrite_def updateVideo_def emit_def events_def)
    next
      case upd: None
      with run Inr g None show ?thesis
        by (intro committed [of vid v f])
           (auto simp: handlerUploadThumbnail_def Let_def bunWrite_def updateVideo_def emit_def events_def)
    qed
  qed
qed

subsection \<open>Hexadecimal keys\<close>





subsection \<open>The sample runs, evaluated\<close>

lemmas sample_defs = sample_cfg_def sample_video_def sample_file_def sample_thumbnail_def
  sample_env_def sample_req_def sample_world_def remux_failing_env_def thumbnail_env_def
  commit_failing_env_def webm_env_def stranger_env_def empty_world_def

lemmas run_defs = handlerUploadVideo_def uploadSteps_def handlerUploadThumbnail_def
  handlerUploadVideo_direct_def directUploadSteps_def videoUploadGate_def thumbnailUploadGate_def
  step_defs events_def Let_def MAX_UPLOAD_SIZE_def MAX_THUMBNAIL_SIZE_def randomBytes_def
  getAssetDiskPath_def getAssetUrl_def showInt_def showNat.simps

lemma toHex_zeros: "toHex (map (\<lambda>n. 0) [0..<32]) = sample_key"
  unfolding sample_key_def by code_simp

lemma aspect_1920_1080: "aspectRatioOf 1920 1080 = ''landscape''"
  by code_simp

lemma mediaTypeToExt_png: "mediaTypeToExt ''image/png'' = ''.png''"
  by (simp add: mediaTypeToExt_def)

lemma sample_run_eval:
  "fst sample_run =
     Inr \<lparr>status = 200, payload = Some (sample_video\<lparr>videoURL :=
        Some (''https://d111.cloudfront.net/landscape/'' @ sample_key @ ''.mp4'')\<rparr>)\<rparr>"
  "events sample_world (snd sample_run) =
     [FsWrite (''/tmp/'' @ sample_key @ ''.mp4''), SpawnFfprobe (''/tmp/'' @ sample_key @ ''.mp4''),
      SpawnFfmpeg (''/tmp/'' @ sample_key @ ''.mp4'') (''/tmp/'' @ sample_key @ ''.mp4.processed''),
      S3Upload (''landscape/'' @ sample_key @ ''.mp4'') (''/tmp/'' @ sample_key @ ''.mp4.processed'') ''video/mp4'',
      DbUpdate (sample_video\<lparr>videoURL :=
        Some (''https://d111.cloudfront.net/landscape/'' @ sample_key @ ''.mp4'')\<rparr>),
      FsDelete (''/tmp/'' @ sample_key @ ''.mp4'')]"
  "fs (snd sample_run) (''/tmp/'' @ sample_key @ ''.mp4.processed'') = Some [4, 5, 6]"
  "fs (snd sample_run) (''/tmp/'' @ sample_key @ ''.mp4'') = None"
  "db (snd sample_run) ''v1'' =
     Some (sample_video\<lparr>videoURL :=
        Some (''https://d111.cloudfront.net/landscape/'' @ sample_key @ ''.mp4'')\<rparr>)"
  by (simp_all add: sample_run_def run_defs toHex_zeros aspect_1920_1080 sample_defs)

lemma remux_failing_run_eval:
  "fst remux_failing_run = Inl (Error ''ffmpeg failed with exit code 1: '')"
  "events sample_world (snd remux_failing_run) =
     [FsWrite (''/tmp/'' @ sample_key @ ''.mp4''), SpawnFfprobe (''/tmp/'' @ sample_key @ ''.mp4''),
      SpawnFfmpeg (''/tmp/'' @ sample_key @ ''.mp4'') (''/tmp/'' @ sample_key @ ''.mp4.processed''),
      FsDelete (''/tmp/'' @ sample_key @ ''.mp4'')]"
  "fs (snd remux_failing_run) (''/tmp/'' @ sample_key @ ''.mp4.processed'') = Some [4, 5, 6]"
  by (simp_all add: remux_failing_run_def run_defs toHex_zeros aspect_1920_1080 sample_defs)

lemma direct_run_eval: "fst direct_run = Inr \<lparr>status = 200, payload = None\<rparr>"
  by (simp add: direct_run_def run_defs toHex_zeros sample_defs)

lemma thumbnail_run_eval:
  "fst thumbnail_run =
     Inr \<lparr>status = 200, payload =
        Some (sample_video\<lparr>thumbnailURL := Some ''http://localhost:8091/assets/v1.png''\<rparr>)\<rparr>"
  "events sample_world (snd thumbnail_run) =
     [FsWrite ''/assets/v1.png'',
      DbUpdate (sample_video\<lparr>thumbnailURL := Some ''http://localhost:8091/assets/v1.png''\<rparr>)]"
  by (simp_all add: thumbnail_run_def run_defs mediaTypeToExt_png sample_defs)

lemma commit_failing_run_eval:
  "fst commit_failing_run = Inl (Error ''database is locked'')"
  "events sample_world (snd commit_failing_run) =
     [FsWrite ''/assets/v1.png'',
      DbUpdate (sample_video\<lparr>thumbnailURL := Some ''http://localhost:8091/assets/v1.png''\<rparr>)]"
  "fs (snd commit_failing_run) ''/assets/v1.png'' = Some [7, 8, 9]"
  "db (snd commit_failing_run) ''v1'' = Some sample_video"
  by (simp_all add: commit_failing_run_def run_defs mediaTypeToExt_png sample_defs)

section \<open>The claims\<close>

subsection \<open>Cleanup of staged files\<close>

text \<open>
  Claim C1 says that every staged file, the raw upload and the remuxed sibling written
  by \<open>processVideoForFastStart\<close>, is absent from scratch storage when the handler
  returns. The \<^verbatim>\<open>finally\<close> deletes the raw upload only: in every run in which the
  remux subprocess ran and wrote its output, whether the run succeeds or fails later, the
  sibling \<open>/tmp/<key>.mp4.processed\<close> is still in scratch storage when the handler
  returns, and no deletion of it was attempted.
\<close>

theorem remuxed_sibling_left_behind:
  assumes run: "handlerUploadVideo cfg en req w = (r, w')"
    and spawned: "SpawnFfmpeg a b \<in> set (events w w')"
    and wrote: "ffmpeg_output en = Some out"
  shows "a = ''/tmp/'' @ toHex (randomBytes en 32) @ ''.mp4'' \<and> b = a @ ''.processed''
     \<and> fs w' b = Some out \<and> FsDelete b \<notin> set (events w w')"
  using run
proof (cases rule: handlerUploadVideo_cases)
  case (rejected e)
  with spawned show ?thesis by simp
next
  case (write_failed v f e)
  with spawned show ?thesis by (simp split: option.splits)
next
  case (probe_failed v f e)
  with spawned show ?thesis by (simp split: option.splits)
next
  case (remux_failed v f c)
  with spawned wrote show ?thesis by (simp split: option.splits)
next
  case (upload_failed v f c e)
  with spawned wrote show ?thesis by (simp split: option.splits)
next
  case (commit_failed v f c e)
  with spawned wrote show ?thesis by (simp split: option.splits)
next
  case (committed v f c)
  with spawned wrote show ?thesis by (simp split: option.splits)
qed

theorem remuxed_sibling_left_behind_witness:
  "SpawnFfmpeg (''/tmp/'' @ sample_key @ ''.mp4'') (''/tmp/'' @ sample_key @ ''.mp4.processed'')
      \<in> set (events sample_world (snd sample_run))
   \<and> ffmpeg_output sample_env = Some [4, 5, 6]
   \<and> fst sample_run = Inr \<lparr>status = 200, payload = Some (sample_video\<lparr>videoURL :=
        Some (''https://d111.cloudfront.net/landscape/'' @ sample_key @ ''.mp4'')\<rparr>)\<rparr>
   \<and> fs (snd sample_run) (''/tmp/'' @ sample_key @ ''.mp4.processed'') = Some [4, 5, 6]
   \<and> FsDelete (''/tmp/'' @ sample_key @ ''.mp4.processed'') \<notin> set (events sample_world (snd sample_run))"
proof -
  have run: "handlerUploadVideo sample_cfg sample_env sample_req sample_world
      = (fst sample_run, snd sample_run)"
    by (simp add: sample_run_def)
  have spawned: "SpawnFfmpeg (''/tmp/'' @ sample_key @ ''.mp4'') (''/tmp/'' @ sample_key @ ''.mp4.processed'')
      \<in> set (events sample_world (snd sample_run))"
    by (simp add: sample_run_eval)
  have wrote: "ffmpeg_output sample_env = Some [4, 5, 6]"
    by (simp add: sample_env_def)
  from remuxed_sibling_left_behind [OF run spawned wrote] spawned wrote sample_run_eval(1)
  show ?thesis by simp
qed

subsection \<open>A video id without a record\<close>

text \<open>
  Claim C2 says that both handlers reject a request whose video id has no record with
  the NotFound kind. For a request that reaches the lookup (a video id is given and the
  requester is authenticated), the thumbnail handler throws \<open>NotFoundError\<close>, and the
  primary-media handler throws \<open>BadRequestError\<close>: with the message "Video not found"
  when the id is a well-formed UUID, and for a malformed id already at the format check.
\<close>

theorem missing_record_rejections:
  assumes "videoId req = Some vid" and "vid \<noteq> []" and "authenticate en = Inr uid"
    and "getVideo w vid = None"
  shows "handlerUploadThumbnail cfg en req w = (Inl (NotFoundError ''Couldn't find video''), w)
     \<and> handlerUploadVideo cfg en req w =
         (Inl (BadRequestError (if validateUUID en vid then ''Video not found''
                                else ''Invalid video ID format'')), w)"
  using assms
  by (simp add: handlerUploadThumbnail_def thumbnailUploadGate_def handlerUploadVideo_def
      videoUploadGate_def)

theorem missing_record_rejections_witness:
  "videoId sample_req = Some ''v1'' \<and> authenticate sample_env = Inr ''u1''
   \<and> getVideo empty_world ''v1'' = None
   \<and> handlerUploadThumbnail sample_cfg sample_env sample_req empty_world
        = (Inl (NotFoundError ''Couldn't find video''), empty_world)
   \<and> handlerUploadVideo sample_cfg sample_env sample_req empty_world
        = (Inl (BadRequestError ''Video not found''), empty_world)"
proof -
  have vid: "videoId sample_req = Some ''v1''" by (simp add: sample_req_def)
  have ne: "''v1'' \<noteq> []" by simp
  have auth: "authenticate sample_env = Inr ''u1''" by (simp add: sample_env_def)
  have missing: "getVideo empty_world ''v1'' = None"
    by (simp add: getVideo_def empty_world_def)
  from missing_record_rejections [OF vid ne auth missing, of sample_cfg] vid auth missing
  show ?thesis by (simp add: sample_env_def)
qed

subsection \<open>The payload of a successful response\<close>

text \<open>
  Claim C3 says that a successful primary-media upload answers without a body. The
  handler of \<^verbatim>\<open>videos.ts\<close> answers with the updated record: the sample upload is a
  successful run whose payload is not \<open>None\<close>.
\<close>

theorem primary_upload_payload_counterexample:
  "\<not> (\<forall>cfg en req w resp w'.
        handlerUploadVideo cfg en req w = (Inr resp, w') \<longrightarrow> payload resp = None)"
proof
  assume all: "\<forall>cfg en req w resp w'.
        handlerUploadVideo cfg en req w = (Inr resp, w') \<longrightarrow> payload resp = None"
  define resp where "resp = \<lparr>status = 200, payload = Some (sample_video\<lparr>videoURL :=
        Some (''https://d111.cloudfront.net/landscape/'' @ sample_key @ ''.mp4'')\<rparr>)\<rparr>"
  have "handlerUploadVideo sample_cfg sample_env sample_req sample_world = (Inr resp, snd sample_run)"
    using sample_run_eval(1) by (simp add: sample_run_def resp_def prod_eq_iff)
  with all have "payload resp = None" by blast
  then show False by (simp add: resp_def)
qed

text \<open>
  Claim C3, amended. A successful upload through the primary-media handler of
  \<^verbatim>\<open>videos.ts\<close> answers with status 200 and the record read from the store with its
  \<open>videoURL\<close> replaced; a successful thumbnail upload answers with the record with its
  \<open>thumbnailURL\<close> replaced; only the earlier variant of the primary-media handler
  answers with a \<open>null\<close> payload.
\<close>

theorem success_payloads:
  "(handlerUploadVideo cfg en req w = (Inr resp, w') \<longrightarrow>
      status resp = 200 \<and>
      (\<exists>vid v url. videoId req = Some vid \<and> getVideo w vid = Some v
          \<and> payload resp = Some (v\<lparr>videoURL := Some url\<rparr>)))
   \<and> (handlerUploadThumbnail cfg en req w = (Inr resp, w') \<longrightarrow>
      status resp = 200 \<and>
      (\<exists>vid v url. videoId req = Some vid \<and> getVideo w vid = Some v
          \<and> payload resp = Some (v\<lparr>thumbnailURL := Some url\<rparr>)))
   \<and> (handlerUploadVideo_direct cfg en req w = (Inr resp, w') \<longrightarrow>
      status resp = 200 \<and> payload resp = None)"
proof -
  have primary: "status resp = 200 \<and> (\<exists>vid v url. videoId req = Some vid \<and> getVideo w vid = Some v
          \<and> payload resp = Some (v\<lparr>videoURL := Some url\<rparr>))"
    if run: "handlerUploadVideo cfg en req w = (Inr resp, w')"
    using run
  proof (cases rule: handlerUploadVideo_cases)
    case (committed v f c)
    with videoUploadGate_Inr [OF committed(1)] show ?thesis
      by (auto simp: respondWithJSON_def)
  qed simp_all
  have thumbnail: "status resp = 200 \<and> (\<exists>vid v url. videoId req = Some vid \<and> getVideo w vid = Some v
          \<and> payload resp = Some (v\<lparr>thumbnailURL := Some url\<rparr>))"
    if run: "handlerUploadThumbnail cfg en req w = (Inr resp, w')"
    using run
  proof (cases rule: handlerUploadThumbnail_cases)
    case (committed vid v f)
    with thumbnailUploadGate_Inr [OF committed(1)] show ?thesis
      by (auto simp: respondWithJSON_def)
  qed simp_all
  have direct: "status resp = 200 \<and> payload resp = None"
    if run: "handlerUploadVideo_direct cfg en req w = (Inr resp, w')"
    using run
    by (auto simp: handlerUploadVideo_direct_def Let_def respondWithJSON_def
        split: sum.splits prod.splits)
  from primary thumbnail direct show ?thesis by blast
qed

theorem success_payloads_witness:
  "handlerUploadVideo sample_cfg sample_env sample_req sample_world
      = (Inr \<lparr>status = 200, payload = Some (sample_video\<lparr>videoURL :=
          Some (''https://d111.cloudfront.net/landscape/'' @ sample_key @ ''.mp4'')\<rparr>)\<rparr>, snd sample_run)
   \<and> (\<exists>url. Some (sample_video\<lparr>videoURL :=
          Some (''https://d111.cloudfront.net/landscape/'' @ sample_key @ ''.mp4'')\<rparr>)
        = Some (sample_video\<lparr>videoURL := Some url\<rparr>))
   \<and> handlerUploadThumbnail sample_cfg thumbnail_env sample_req sample_world
      = (Inr \<lparr>status = 200, payload =
          Some (sample_video\<lparr>thumbnailURL := Some ''http://localhost:8091/assets/v1.png''\<rparr>)\<rparr>,
         snd thumbnail_run)
   \<and> handlerUploadVideo_direct sample_cfg sample_env sample_req sample_world
      = (Inr \<lparr>status = 200, payload = None\<rparr>, snd direct_run)"
proof -
  let ?primary = "\<lparr>status = 200, payload = Some (sample_video\<lparr>videoURL :=
          Some (''https://d111.cloudfront.net/landscape/'' @ sample_key @ ''.mp4'')\<rparr>)\<rparr>"
  let ?thumb = "\<lparr>status = 200, payload =
          Some (sample_video\<lparr>thumbnailURL := Some ''http://localhost:8091/assets/v1.png''\<rparr>)\<rparr>"
  let ?direct = "\<lparr>status = 200, payload = None :: video option\<rparr>"
  have primary: "handlerUploadVideo sample_cfg sample_env sample_req sample_world
      = (Inr ?primary, snd sample_run)"
    using sample_run_eval(1) by (simp add: sample_run_def prod_eq_iff)
  have thumb: "handlerUploadThumbnail sample_cfg thumbnail_env sample_req sample_world
      = (Inr ?thumb, snd thumbnail_run)"
    using thumbnail_run_eval(1) by (simp add: thumbnail_run_def prod_eq_iff)
  have direct: "handlerUploadVideo_direct sample_cfg sample_env sample_req sample_world
      = (Inr ?direct, snd direct_run)"
    using direct_run_eval by (simp add: direct_run_def prod_eq_iff)
  from success_payloads [of sample_cfg sample_env sample_req sample_world ?primary "snd sample_run"]
    primary
  have "\<exists>vid v url. videoId sample_req = Some vid \<and> getVideo sample_world vid = Some v
      \<and> payload ?primary = Some (v\<lparr>videoURL := Some url\<rparr>)"
    by blast
  then have "\<exists>url. Some (sample_video\<lparr>videoURL :=
          Some (''https://d111.cloudfront.net/landscape/'' @ sample_key @ ''.mp4'')\<rparr>)
        = Some (sample_video\<lparr>videoURL := Some url\<rparr>)"
    by (auto simp: sample_req_def sample_world_def getVideo_def)
  with primary thumb direct show ?thesis by blast
qed

subsection \<open>A failing remux\<close>

text \<open>
  Claim C4. In every run of the primary-media handler in which the remux subprocess
  was spawned and exited with a non-zero code, the handler throws the remux error, no
  upload to the object store was attempted, \<open>updateVideo\<close> was not called, and the
  record store and the object store are as they were before the run.
\<close>

theorem remux_failure_surfaced:
  assumes run: "handlerUploadVideo cfg en req w = (r, w')"
    and spawned: "SpawnFfmpeg a b \<in> set (events w w')"
    and failed: "ffmpeg_exit en \<noteq> 0"
  shows "r = Inl (Error (''ffmpeg failed with exit code '' @ showInt (ffmpeg_exit en) @ '': '' @ ffmpeg_stderr en))
     \<and> (\<forall>k p t. S3Upload k p t \<notin> set (events w w')) \<and> (\<forall>v. DbUpdate v \<notin> set (events w w'))
     \<and> db w' = db w \<and> s3 w' = s3 w"
  using run
proof (cases rule: handlerUploadVideo_cases)
  case (remux_failed v f c)
  then show ?thesis by (simp split: option.splits)
qed (use spawned failed in \<open>simp_all split: option.splits\<close>)

theorem remux_failure_surfaced_witness:
  "SpawnFfmpeg (''/tmp/'' @ sample_key @ ''.mp4'') (''/tmp/'' @ sample_key @ ''.mp4.processed'')
      \<in> set (events sample_world (snd remux_failing_run))
   \<and> ffmpeg_exit remux_failing_env \<noteq> 0
   \<and> fst remux_failing_run = Inl (Error ''ffmpeg failed with exit code 1: '')
   \<and> db (snd remux_failing_run) = db sample_world
   \<and> s3 (snd remux_failing_run) = s3 sample_world"
proof -
  have run: "handlerUploadVideo sample_cfg remux_failing_env sample_req sample_world
      = (fst remux_failing_run, snd remux_failing_run)"
    by (simp add: remux_failing_run_def)
  have spawned: "SpawnFfmpeg (''/tmp/'' @ sample_key @ ''.mp4'') (''/tmp/'' @ sample_key @ ''.mp4.processed'')
      \<in> set (events sample_world (snd remux_failing_run))"
    by (simp add: remux_failing_run_eval)
  have failed: "ffmpeg_exit remux_failing_env \<noteq> 0"
    by (simp add: remux_failing_env_def)
  from remux_failure_surfaced [OF run spawned failed] spawned failed remux_failing_run_eval(1)
  show ?thesis by simp
qed

subsection \<open>The committed URL\<close>



subsection \<open>A content type other than video/mp4\<close>





subsection \<open>The field that a commit changes\<close>

text \<open>
  Claim C9. Whenever a handler hands a record to the record store, that record is the
  record read from the store for the request's video id with one field assigned:
  \<open>videoURL\<close> in the primary-media handler, \<open>thumbnailURL\<close> in the thumbnail handler.
  The id, the owner, the other URL and the remaining fields are those of the record read.
\<close>

theorem commit_changes_one_field:
  "(handlerUploadVideo cfg en req w = (r, w') \<and> DbUpdate v' \<in> set (events w w') \<longrightarrow>
      (\<exists>vid v url. videoId req = Some vid \<and> getVideo w vid = Some v \<and> v' = v\<lparr>videoURL := Some url\<rparr>
          \<and> video_id v' = video_id v \<and> userID v' = userID v \<and> thumbnailURL v' = thumbnailURL v
          \<and> other_fields v' = other_fields v))
   \<and> (handlerUploadThumbnail cfg en req w = (r, w') \<and> DbUpdate v' \<in> set (events w w') \<longrightarrow>
      (\<exists>vid v url. videoId req = Some vid \<and> getVideo w vid = Some v \<and> v' = v\<lparr>thumbnailURL := Some url\<rparr>
          \<and> video_id v' = video_id v \<and> userID v' = userID v \<and> videoURL v' = videoURL v
          \<and> other_fields v' = other_fields v))"
proof -
  have primary: "\<exists>vid v url. videoId req = Some vid \<and> getVideo w vid = Some v \<and> v' = v\<lparr>videoURL := Some url\<rparr>
          \<and> video_id v' = video_id v \<and> userID v' = userID v \<and> thumbnailURL v' = thumbnailURL v
          \<and> other_fields v' = other_fields v"
    if run: "handlerUploadVideo cfg en req w = (r, w')" and upd: "DbUpdate v' \<in> set (events w w')"
    using run
  proof (cases rule: handlerUploadVideo_cases)
    case (commit_failed v f c e)
    with upd videoUploadGate_Inr [OF commit_failed(1)] show ?thesis
      by (auto split: option.splits)
  next
    case (committed v f c)
    with upd videoUploadGate_Inr [OF committed(1)] show ?thesis
      by (auto split: option.splits)
  qed (use upd in \<open>simp_all split: option.splits\<close>)
  have thumbnail: "\<exists>vid v url. videoId req = Some vid \<and> getVideo w vid = Some v \<and> v' = v\<lparr>thumbnailURL := Some url\<rparr>
          \<and> video_id v' = video_id v \<and> userID v' = userID v \<and> videoURL v' = videoURL v
          \<and> other_fields v' = other_fields v"
    if run: "handlerUploadThumbnail cfg en req w = (r, w')" and upd: "DbUpdate v' \<in> set (events w w')"
    using run
  proof (cases rule: handlerUploadThumbnail_cases)
    case (commit_failed vid v f e)
    with upd thumbnailUploadGate_Inr [OF commit_failed(1)] show ?thesis by auto
  next
    case (committed vid v f)
    with upd thumbnailUploadGate_Inr [OF committed(1)] show ?thesis by auto
  qed (use upd in simp_all)
  from primary thumbnail show ?thesis by blast
qed

theorem commit_changes_one_field_witness:
  "DbUpdate (sample_video\<lparr>videoURL :=
        Some (''https://d111.cloudfront.net/landscape/'' @ sample_key @ ''.mp4'')\<rparr>)
      \<in> set (events sample_world (snd sample_run))
   \<and> (\<exists>url. sample_video\<lparr>videoURL :=
        Some (''https://d111.cloudfront.net/landscape/'' @ sample_key @ ''.mp4'')\<rparr>
          = sample_video\<lparr>videoURL := Some url\<rparr>)
   \<and> DbUpdate (sample_video\<lparr>thumbnailURL := Some ''http://localhost:8091/assets/v1.png''\<rparr>)
      \<in> set (events sample_world (snd thumbnail_run))
   \<and> (\<exists>url. sample_video\<lparr>thumbnailURL := Some ''http://localhost:8091/assets/v1.png''\<rparr>
          = sample_video\<lparr>thumbnailURL := Some url\<rparr>)"
proof -
  let ?v1 = "sample_video\<lparr>videoURL :=
        Some (''https://d111.cloudfront.net/landscape/'' @ sample_key @ ''.mp4'')\<rparr>"
  let ?v2 = "sample_video\<lparr>thumbnailURL := Some ''http://localhost:8091/assets/v1.png''\<rparr>"
  have run1: "handlerUploadVideo sample_cfg sample_env sample_req sample_world
      = (fst sample_run, snd sample_run)"
    by (simp add: sample_run_def)
  have upd1: "DbUpdate ?v1 \<in> set (events sample_world (snd sample_run))"
    by (simp add: sample_run_eval)
  have run2: "handlerUploadThumbnail sample_cfg thumbnail_env sample_req sample_world
      = (fst thumbnail_run, snd thumbnail_run)"
    by (simp add: thumbnail_run_def)
  have upd2: "DbUpdate ?v2 \<in> set (events sample_world (snd thumbnail_run))"
    by (simp add: thumbnail_run_eval)
  from commit_changes_one_field
    [of sample_cfg sample_env sample_req sample_world "fst sample_run" "snd sample_run" ?v1]
    run1 upd1
  have "\<exists>vid v url. videoId sample_req = Some vid \<and> getVideo sample_world vid = Some v
      \<and> ?v1 = v\<lparr>videoURL := Some url\<rparr>"
    by blast
  then have one: "\<exists>url. ?v1 = sample_video\<lparr>videoURL := Some url\<rparr>"
    by (auto simp: sample_req_def sample_world_def getVideo_def)
  from commit_changes_one_field
    [of sample_cfg thumbnail_env sample_req sample_world "fst thumbnail_run" "snd thumbnail_run" ?v2]
    run2 upd2
  have "\<exists>vid v url. videoId sample_req = Some vid \<and> getVideo sample_world vid = Some v
      \<and> ?v2 = v\<lparr>thumbnailURL := Some url\<rparr>"
    by blast
  then have two: "\<exists>url. ?v2 = sample_video\<lparr>thumbnailURL := Some url\<rparr>"
    by (auto simp: sample_req_def sample_world_def getVideo_def)
  from upd1 one upd2 two show ?thesis by blast
qed

subsection \<open>The thumbnail on disk\<close>

text \<open>
  Claim C10. The thumbnail handler deletes no file in any run, and every file it writes
  is written at the final asset path of the thumbnail. In every run in which it hands the
  record to the store, the write at the final path came first and the file is on disk
  with the uploaded bytes when the handler returns; when the update fails, the handler
  throws the error of the store, the record store is unchanged, and the file stays.
\<close>

theorem thumbnail_written_in_place:
  assumes run: "handlerUploadThumbnail cfg en req w = (r, w')"
  shows "(\<forall>p. FsDelete p \<notin> set (events w w'))
     \<and> (\<forall>p. FsWrite p \<in> set (events w w') \<longrightarrow>
           (\<exists>vid v f. thumbnailUploadGate en req w = Inr (vid, v, f)
               \<and> p = getAssetDiskPath en cfg (vid @ mediaTypeToExt (file_type f))))
     \<and> (\<forall>v'. DbUpdate v' \<in> set (events w w') \<longrightarrow>
           (\<exists>vid v f. thumbnailUploadGate en req w = Inr (vid, v, f)
               \<and> events w w' = [FsWrite (getAssetDiskPath en cfg (vid @ mediaTypeToExt (file_type f))), DbUpdate v']
               \<and> fs w' (getAssetDiskPath en cfg (vid @ mediaTypeToExt (file_type f))) = Some (file_data f)
               \<and> (\<forall>e. update_outcome en = Some e \<longrightarrow> r = Inl e \<and> db w' = db w)))"
  using run
  by (cases rule: handlerUploadThumbnail_cases) simp_all

theorem thumbnail_written_in_place_witness:
  "DbUpdate (sample_video\<lparr>thumbnailURL := Some ''http://localhost:8091/assets/v1.png''\<rparr>)
      \<in> set (events sample_world (snd commit_failing_run))
   \<and> update_outcome commit_failing_env = Some (Error ''database is locked'')
   \<and> fst commit_failing_run = Inl (Error ''database is locked'')
   \<and> fs (snd commit_failing_run) ''/assets/v1.png'' = Some [7, 8, 9]
   \<and> db (snd commit_failing_run) = db sample_world
   \<and> (\<forall>p. FsDelete p \<notin> set (events sample_world (snd commit_failing_run)))"
proof -
  let ?v = "sample_video\<lparr>thumbnailURL := Some ''http://localhost:8091/assets/v1.png''\<rparr>"
  have run: "handlerUploadThumbnail sample_cfg commit_failing_env sample_req sample_world
      = (fst commit_failing_run, snd commit_failing_run)"
    by (simp add: commit_failing_run_def)
  have upd: "DbUpdate ?v \<in> set (events sample_world (snd commit_failing_run))"
    by (simp add: commit_failing_run_eval)
  have fails: "update_outcome commit_failing_env = Some (Error ''database is locked'')"
    by (simp add: commit_failing_env_def)
  from thumbnail_written_in_place [OF run] upd fails
  have "(\<forall>p. FsDelete p \<notin> set (events sample_world (snd commit_failing_run)))
      \<and> fst commit_failing_run = Inl (Error ''database is locked'')
      \<and> db (snd commit_failing_run) = db sample_world"
    by blast
  with upd fails commit_failing_run_eval(3) show ?thesis by blast
qed

subsection \<open>Classification in doubles\<close>

lemma round_half_even_error: "\<bar>of_int (round_half_even y) - y\<bar> \<le> 1 / 2"
proof -
  have "of_int \<lfloor>y\<rfloor> \<le> y" "y < of_int \<lfloor>y\<rfloor> + 1" by linarith+
  then show ?thesis
    by (auto simp: round_half_even_def Let_def)
qed

lemma round_half_even_of_int [simp]: "round_half_even (of_int z) = z"
  by (simp add: round_half_even_def)

lemma ilog2_le:
  assumes "0 < x"
  shows "2 powi (ilog2 x) \<le> x"
proof -
  obtain p q where pq: "quotient_of x = (p, q)" by (cases "quotient_of x")
  then have q: "0 < q" and x: "x = of_int p / of_int q"
    by (simp_all add: quotient_of_denom_pos quotient_of_div)
  with assms have p: "0 < p"
    by (simp add: zero_less_divide_iff)
  define k where "k = bitlen p - bitlen q"
  have "2 powi (k - 1) \<le> x"
  proof -
    have bp: "(2::int) ^ nat (bitlen p - 1) \<le> p" using bitlen_bounds [OF p] by simp
    have bq: "q < (2::int) ^ nat (bitlen q)" using bitlen_bounds [OF q] by simp
    have blp: "1 \<le> bitlen p" using p bitlen_eq_zero_iff [of p] bitlen_nonneg [of p] by linarith
    have blq: "0 \<le> bitlen q" by (rule bitlen_nonneg)
    have km: "k - 1 = (bitlen p - 1) - bitlen q" by (simp add: k_def)
    have "(2::rat) powi ((bitlen p - 1) - bitlen q) = 2 powi (bitlen p - 1) / 2 powi (bitlen q)"
      by (rule power_int_diff) simp
    then have "(2::rat) powi (k - 1) = 2 powi (bitlen p - 1) / 2 powi (bitlen q)"
      by (simp only: km)
    also have "\<dots> = 2 ^ nat (bitlen p - 1) / 2 ^ nat (bitlen q)"
      using blp blq by (simp add: power_int_def)
    also have "\<dots> \<le> of_int p / of_int q"
    proof -
      have "(2::rat) ^ nat (bitlen p - 1) \<le> of_int p"
        using bp by (metis of_int_le_iff of_int_numeral of_int_power)
      moreover have "(of_int q :: rat) \<le> 2 ^ nat (bitlen q)"
        using bq by (metis less_imp_le of_int_le_iff of_int_numeral of_int_power)
      moreover have "(0::rat) < of_int q" using q by simp
      ultimately show ?thesis
        using p by (intro frac_le) simp_all
    qed
    finally show ?thesis by (simp add: x)
  qed
  then show ?thesis
    using pq by (simp add: ilog2_def Let_def k_def)
qed

lemma ilog2_less:
  assumes "0 < x"
  shows "x < 2 powi (ilog2 x + 1)"
proof -
  obtain p q where pq: "quotient_of x = (p, q)" by (cases "quotient_of x")
  then have q: "0 < q" and x: "x = of_int p / of_int q"
    by (simp_all add: quotient_of_denom_pos quotient_of_div)
  with assms have p: "0 < p"
    by (simp add: zero_less_divide_iff)
  define k where "k = bitlen p - bitlen q"
  show ?thesis
  proof (cases "2 powi k \<le> x")
    case True
    have bp: "p < (2::int) ^ nat (bitlen p)" using bitlen_bounds [OF p] by simp
    have bq: "(2::int) ^ nat (bitlen q - 1) \<le> q" using bitlen_bounds [OF q] by simp
    have blp: "0 \<le> bitlen p" by (rule bitlen_nonneg)
    have blq: "1 \<le> bitlen q" using q bitlen_eq_zero_iff [of q] bitlen_nonneg [of q] by linarith
    have "of_int p / of_int q < (2::rat) ^ nat (bitlen p) / 2 ^ nat (bitlen q - 1)"
    proof -
      have "(of_int p :: rat) < 2 ^ nat (bitlen p)"
        using bp by (metis of_int_less_iff of_int_numeral of_int_power)
      moreover have "(2::rat) ^ nat (bitlen q - 1) \<le> of_int q"
        using bq by (metis of_int_le_iff of_int_numeral of_int_power)
      moreover have "(0::rat) < of_int p" using p by simp
      ultimately show ?thesis by (intro frac_less) simp_all
    qed
    also have "\<dots> = 2 powi (bitlen p) / 2 powi (bitlen q - 1)"
      using blp blq by (simp add: power_int_def)
    also have "\<dots> = 2 powi (bitlen p - (bitlen q - 1))"
      by (rule power_int_diff [symmetric]) simp
    also have "bitlen p - (bitlen q - 1) = k + 1" by (simp add: k_def)
    finally have "x < 2 powi (k + 1)" by (simp add: x)
    with True pq show ?thesis by (simp add: ilog2_def Let_def k_def)
  next
    case False
    with pq show ?thesis by (simp add: ilog2_def Let_def k_def)
  qed
qed

lemma fl_error: "\<bar>fl x - x\<bar> \<le> \<bar>x\<bar> / 2 ^ 53"
proof (cases "x = 0")
  case True
  then show ?thesis by (simp add: fl_def)
next
  case False
  define u :: rat where "u = 2 powi (ilog2 \<bar>x\<bar> - 52)"
  define m where "m = round_half_even (\<bar>x\<bar> / u)"
  have u_pos: "0 < u" by (simp add: u_def)
  have "u = 2 powi (ilog2 \<bar>x\<bar>) / 2 ^ 52"
    by (simp add: u_def power_int_diff)
  also have "\<dots> \<le> \<bar>x\<bar> / 2 ^ 52"
    using ilog2_le [of "\<bar>x\<bar>"] False by (simp add: divide_right_mono)
  finally have u_le: "u \<le> \<bar>x\<bar> / 2 ^ 52" .
  have flx: "fl x = sgn x * of_int m * u"
    using False by (simp add: fl_def Let_def u_def m_def)
  have "x = sgn x * \<bar>x\<bar>" by (simp add: mult_sgn_abs)
  then have "fl x - x = sgn x * of_int m * u - sgn x * \<bar>x\<bar>" by (simp add: flx)
  then have "fl x - x = sgn x * (of_int m * u - \<bar>x\<bar>)"
    by (simp only: right_diff_distrib mult.assoc)
  then have "\<bar>fl x - x\<bar> = \<bar>of_int m * u - \<bar>x\<bar>\<bar>"
    using False by (simp add: abs_mult abs_sgn_eq)
  also have "of_int m * u - \<bar>x\<bar> = (of_int m - \<bar>x\<bar> / u) * u"
    using u_pos by (simp add: algebra_simps)
  also have "\<bar>\<dots>\<bar> = \<bar>of_int m - \<bar>x\<bar> / u\<bar> * u"
    using u_pos by (simp add: abs_mult)
  also have "\<dots> \<le> (1 / 2) * u"
    using round_half_even_error [of "\<bar>x\<bar> / u"] u_pos
    by (intro mult_right_mono) (simp_all add: m_def)
  also have "\<dots> \<le> (1 / 2) * (\<bar>x\<bar> / 2 ^ 52)"
    using u_le by simp
  also have "\<dots> = \<bar>x\<bar> / 2 ^ 53" by simp
  finally show ?thesis .
qed


lemma fl_of_int:
  assumes "\<bar>n\<bar> < 2 ^ 53"
  shows "fl (of_int n) = of_int n"
proof (cases "n = 0")
  case True
  then show ?thesis by (simp add: fl_def)
next
  case False
  define x :: rat where "x = of_int n"
  define e where "e = ilog2 \<bar>x\<bar>"
  have x0: "x \<noteq> 0" using False by (simp add: x_def)
  have ax: "\<bar>x\<bar> = of_int \<bar>n\<bar>" by (simp add: x_def)
  have "2 powi e \<le> \<bar>x\<bar>" unfolding e_def using x0 by (intro ilog2_le) simp
  moreover have "\<bar>x\<bar> < 2 ^ 53"
    unfolding ax using assms by (metis of_int_less_iff of_int_numeral of_int_power)
  ultimately have lt: "(2::rat) powi e < 2 powi 53" by simp
  have e: "e \<le> 52"
  proof (rule ccontr)
    assume "\<not> e \<le> 52"
    then have "53 \<le> e" by simp
    then have "(2::rat) powi 53 \<le> 2 powi e" by (intro power_int_increasing) simp_all
    with lt show False by simp
  qed
  define k where "k = nat (52 - e)"
  have u: "(2::rat) powi (e - 52) = inverse (2 ^ k)"
  proof -
    have "e - 52 = - int k" using e by (simp add: k_def)
    then show ?thesis by (simp add: power_int_minus)
  qed
  have "\<bar>x\<bar> / 2 powi (e - 52) = of_int (\<bar>n\<bar> * 2 ^ k)"
    by (simp add: u ax divide_inverse)
  then have "round_half_even (\<bar>x\<bar> / 2 powi (e - 52)) = \<bar>n\<bar> * 2 ^ k"
    by (simp only: round_half_even_of_int)
  then have "fl x = sgn x * of_int (\<bar>n\<bar> * 2 ^ k) * inverse (2 ^ k)"
    using x0 by (simp add: fl_def Let_def e_def [symmetric] u)
  also have "\<dots> = sgn x * \<bar>x\<bar>" by (simp add: ax)
  also have "\<dots> = x" by (simp add: mult_sgn_abs)
  finally show ?thesis by (simp add: x_def)
qed

lemma fl_consts:
  "fl (16 / 9) = 2001599834386887 / 1125899906842624"
  "fl (9 / 16) = 9 / 16"
  "fl (1 / 10) = 3602879701896397 / 36028797018963968"
  by code_simp+

text \<open>
  The test \<open>|ratio - target| < 0.1\<close> in doubles agrees with the exact test when the exact
  distance is not within \<open>2 powi (-40)\<close> of \<open>0.1\<close>.
\<close>

lemma near_test:
  fixes r t T :: rat
  assumes r: "0 < r" and t: "0 \<le> t" "t \<le> 2" and T: "\<bar>T - t\<bar> \<le> 1 / 2 ^ 52"
    and margin: "\<bar>r - t\<bar> \<le> 1 / 10 - 1 / 2 ^ 40 \<or> 1 / 10 + 1 / 2 ^ 40 \<le> \<bar>r - t\<bar>"
  shows "(\<bar>fl (fl r - T)\<bar> < fl (1 / 10)) = (\<bar>r - t\<bar> < 1 / 10)"
proof -
  define a where "a = fl r"
  define x where "x = a - T"
  define d where "d = fl x"
  have ea: "\<bar>a - r\<bar> \<le> r / 9007199254740992"
    using fl_error [of r] r by (simp add: a_def)
  have ed: "\<bar>d - x\<bar> \<le> \<bar>x\<bar> / 9007199254740992"
    using fl_error [of x] by (simp add: d_def)
  have T': "\<bar>T - t\<bar> \<le> 1 / 4503599627370496"
    using T by simp
  have c: "fl (1 / 10) = 3602879701896397 / 36028797018963968" by (rule fl_consts)
  from margin have "\<bar>r - t\<bar> \<le> 1 / 10 - 1 / 1099511627776 \<or> 1 / 10 + 1 / 1099511627776 \<le> \<bar>r - t\<bar>"
    by simp
  then show ?thesis
  proof
    assume near: "\<bar>r - t\<bar> \<le> 1 / 10 - 1 / 1099511627776"
    then have "r \<le> 3" using t by linarith
    with ea have "\<bar>a - r\<bar> \<le> 3 / 9007199254740992" by linarith
    with near T' have x1: "\<bar>x\<bar> \<le> 1 / 10 - 1 / 1099511627776 + 3 / 9007199254740992 + 1 / 4503599627370496"
      unfolding x_def by linarith
    then have "\<bar>x\<bar> \<le> 1" by linarith
    with ed have "\<bar>d - x\<bar> \<le> 1 / 9007199254740992" by linarith
    with x1 have "\<bar>d\<bar> < 1 / 10" by linarith
    then have "\<bar>d\<bar> < fl (1 / 10)" unfolding c by linarith
    moreover from near have "\<bar>r - t\<bar> < 1 / 10" by linarith
    ultimately show ?thesis by (simp add: d_def x_def a_def)
  next
    assume far: "1 / 10 + 1 / 1099511627776 \<le> \<bar>r - t\<bar>"
    have "fl (1 / 10) \<le> \<bar>d\<bar>"
    proof (cases "r \<le> 5")
      case True
      with ea r have ar: "\<bar>a - r\<bar> \<le> 5 / 9007199254740992" by linarith
      with far T' have x1: "1 / 10 + 1 / 1099511627776 - 5 / 9007199254740992 - 1 / 4503599627370496 \<le> \<bar>x\<bar>"
        unfolding x_def by linarith
      from ar True r t T' have "\<bar>x\<bar> \<le> 8" unfolding x_def by linarith
      with ed have "\<bar>d - x\<bar> \<le> 8 / 9007199254740992" by linarith
      with x1 show ?thesis unfolding c by linarith
    next
      case False
      with ea have "r - r / 9007199254740992 \<le> a" by linarith
      with False have "4 \<le> a" by linarith
      with t T' have x2: "1 \<le> x" unfolding x_def by linarith
      with ed have "x - x / 9007199254740992 \<le> d" by linarith
      with x2 have "1 / 2 \<le> d" by linarith
      then show ?thesis unfolding c by linarith
    qed
    moreover from far have "\<not> \<bar>r - t\<bar> < 1 / 10" by linarith
    ultimately show ?thesis by (simp add: d_def x_def a_def)
  qed
qed


lemma ratio_margin:
  fixes w h P Q :: int
  assumes h: "0 < h" "h < 2 ^ 32" and Q: "0 < Q" "Q \<le> 16"
    and ne: "10 * \<bar>Q * w - P * h\<bar> \<noteq> Q * h"
  shows "\<bar>of_int w / of_int h - of_int P / of_int Q\<bar> \<le> (1 / 10 - 1 / 2 ^ 40 :: rat)
     \<or> (1 / 10 + 1 / 2 ^ 40 :: rat) \<le> \<bar>of_int w / of_int h - of_int P / of_int Q\<bar>"
proof -
  define M where "M = \<bar>Q * w - P * h\<bar>"
  define N where "N = Q * h"
  define m :: rat where "m = of_int M"
  define n :: rat where "n = of_int N"
  have Npos: "0 < N" using h Q by (simp add: N_def)
  have "N \<le> 16 * h" using h Q by (simp add: N_def)
  with h have Nle: "N \<le> 68719476736" by simp
  have npos: "0 < n" using Npos by (simp add: n_def)
  have nle: "n \<le> 68719476736"
    using Nle unfolding n_def by (metis of_int_le_iff of_int_numeral)
  have "(of_int w / of_int h - of_int P / of_int Q :: rat)
      = of_int (Q * w - P * h) / of_int (Q * h)"
    using h Q by (simp add: diff_frac_eq mult.commute)
  then have x: "\<bar>of_int w / of_int h - of_int P / of_int Q :: rat\<bar> = m / n"
    using h Q by (simp add: m_def n_def M_def N_def abs_mult)
  from ne have "10 * M \<noteq> N" by (simp add: M_def N_def)
  then have "10 * M + 1 \<le> N \<or> N + 1 \<le> 10 * M" by linarith
  then have "10 * m + 1 \<le> n \<or> n + 1 \<le> 10 * m"
    unfolding m_def n_def
    by (metis (mono_tags, opaque_lifting) of_int_1 of_int_add of_int_le_iff of_int_mult of_int_numeral)
  then show ?thesis
  proof
    assume "10 * m + 1 \<le> n"
    with nle have "m \<le> n / 10 - n / 1099511627776" by linarith
    then have "m \<le> (1 / 10 - 1 / 1099511627776) * n"
      by (simp add: left_diff_distrib)
    then have "m / n \<le> 1 / 10 - 1 / 1099511627776"
      using npos by (simp only: pos_divide_le_eq)
    then show ?thesis unfolding x by simp
  next
    assume "n + 1 \<le> 10 * m"
    with nle have "n / 10 + n / 1099511627776 \<le> m" by linarith
    then have "(1 / 10 + 1 / 1099511627776) * n \<le> m"
      by (simp add: distrib_right)
    then have "1 / 10 + 1 / 1099511627776 \<le> m / n"
      using npos by (simp only: pos_le_divide_eq)
    then show ?thesis unfolding x by simp
  qed
qed

lemma toNumber_exact: "\<bar>n\<bar> < 2 ^ 32 \<Longrightarrow> toNumber n = of_int n"
  unfolding toNumber_def by (intro fl_of_int) simp

lemma aspectRatioOf_ratio:
  assumes "\<bar>w\<bar> < 2 ^ 32" "\<bar>h\<bar> < 2 ^ 32" "\<bar>w'\<bar> < 2 ^ 32" "\<bar>h'\<bar> < 2 ^ 32"
    and "(of_int w / of_int h :: rat) = of_int w' / of_int h'"
  shows "aspectRatioOf w h = aspectRatioOf w' h'"
  using assms by (simp add: aspectRatioOf_def fdiv_def toNumber_exact)

text \<open>
  The four ratios at distance exactly \<open>0.1\<close> from a target, evaluated in doubles:
  \<open>151/90 - 16/9\<close> is computed as \<open>-0.09999999999999987\<close>, and \<open>37/80 - 9/16\<close> and
  \<open>53/80 - 9/16\<close> as \<open>0.09999999999999998\<close> in absolute value, all below the double
  \<open>0.1\<close>; \<open>169/90 - 16/9\<close> is computed as \<open>0.10000000000000009\<close>.
\<close>

lemma aspectRatioOf_151_90: "aspectRatioOf 151 90 = ''landscape''"
  by code_simp

lemma aspectRatioOf_169_90: "aspectRatioOf 169 90 = ''other''"
  by code_simp

lemma aspectRatioOf_37_80: "aspectRatioOf 37 80 = ''portrait''"
  by code_simp

lemma aspectRatioOf_53_80: "aspectRatioOf 53 80 = ''portrait''"
  by code_simp

lemmas aspectRatioOf_boundary =
  aspectRatioOf_151_90 aspectRatioOf_169_90 aspectRatioOf_37_80 aspectRatioOf_53_80

lemma ratio_eq:
  fixes w h p q :: int
  assumes "0 < h" "0 < q" "q * w = p * h"
  shows "(of_int w / of_int h :: rat) = of_int p / of_int q"
proof -
  have "(of_int q * of_int w :: rat) = of_int p * of_int h"
    using assms(3) by (metis of_int_mult)
  then show ?thesis using assms(1,2) by (simp add: frac_eq_eq mult.commute)
qed

text \<open>
  Claim C5 says that the classification is \<open>landscape\<close> if \<open>|width/height - 16/9| < 0.1\<close>,
  else \<open>portrait\<close> if \<open>|width/height - 9/16| < 0.1\<close>, else \<open>other\<close>. The code computes
  the quotient, the difference and the constants in doubles. For a 151 by 90 video (or
  1812 by 1080) the distance from \<open>16/9\<close> is exactly \<open>0.1\<close>, so the rule gives \<open>other\<close>,
  and the rounded difference is below the double \<open>0.1\<close>, so the code gives \<open>landscape\<close>.
\<close>

theorem aspectRatioOf_boundary_counterexample:
  "\<not> (\<forall>w h. 0 < w \<and> 0 < h \<longrightarrow> aspectRatioOf w h = specAspectClass w h)"
proof
  assume "\<forall>w h. 0 < w \<and> 0 < h \<longrightarrow> aspectRatioOf w h = specAspectClass w h"
  then have "aspectRatioOf 151 90 = specAspectClass 151 90" by simp
  moreover have "specAspectClass 151 90 = ''other''"
    by (simp add: specAspectClass_def)
  ultimately show False by (simp add: aspectRatioOf_151_90)
qed

text \<open>
  Claim C5, amended. For a probed width and height that are positive integers below
  \<open>2^32\<close>, the classification is a function of the two numbers, and it is the rule of
  the specification (\<open>landscape\<close> if \<open>|width/height - 16/9| < 0.1\<close>, else \<open>portrait\<close> if
  \<open>|width/height - 9/16| < 0.1\<close>, else \<open>other\<close>) except on three ratios at distance
  exactly \<open>0.1\<close> from a target, where rounding makes the test succeed: the ratio
  \<open>151/90\<close> is \<open>landscape\<close>, and the ratios \<open>37/80\<close> and \<open>53/80\<close> are \<open>portrait\<close>. In
  particular 1920 by 1080 is \<open>landscape\<close>, 1080 by 1920 is \<open>portrait\<close> and 1000 by 1000
  is \<open>other\<close>.
\<close>

theorem aspectRatioOf_rule:
  assumes w: "0 < w" "w < 2 ^ 32" and h: "0 < h" "h < 2 ^ 32"
  shows "aspectRatioOf w h =
     (if 90 * w = 151 * h then ''landscape''
      else if 80 * w = 37 * h \<or> 80 * w = 53 * h then ''portrait''
      else specAspectClass w h)"
proof -
  define r :: rat where "r = of_int w / of_int h"
  have bw: "\<bar>w\<bar> < 2 ^ 32" and bh: "\<bar>h\<bar> < 2 ^ 32" using w h by simp_all
  have to: "aspectRatioOf w h = aspectRatioOf p q" if "q * w = p * h" "0 < q" "\<bar>p\<bar> < 2 ^ 32" "\<bar>q\<bar> < 2 ^ 32" for p q
    using that ratio_eq [of h q w p] h by (intro aspectRatioOf_ratio bw bh) simp_all
  consider (a) "90 * w = 151 * h" | (b) "90 * w = 169 * h" | (c) "80 * w = 37 * h" | (d) "80 * w = 53 * h"
    | (e) "90 * w \<noteq> 151 * h" "90 * w \<noteq> 169 * h" "80 * w \<noteq> 37 * h" "80 * w \<noteq> 53 * h"
    by blast
  then show ?thesis
  proof cases
    case a
    with to [of 90 151] show ?thesis by (simp add: aspectRatioOf_boundary)
  next
    case b
    then have "r = 169 / 90" using ratio_eq [of h 90 w 169] h by (simp add: r_def)
    then have "specAspectClass w h = ''other''"
      by (simp add: specAspectClass_def r_def [symmetric])
    moreover from b h have "90 * w \<noteq> 151 * h" "80 * w \<noteq> 37 * h" "80 * w \<noteq> 53 * h" by linarith+
    ultimately show ?thesis using b to [of 90 169] by (simp add: aspectRatioOf_boundary)
  next
    case c
    moreover from c h have "90 * w \<noteq> 151 * h" by linarith
    ultimately show ?thesis using to [of 80 37] by (simp add: aspectRatioOf_boundary)
  next
    case d
    moreover from d h have "90 * w \<noteq> 151 * h" by linarith
    ultimately show ?thesis using to [of 80 53] by (simp add: aspectRatioOf_boundary)
  next
    case e
    have rpos: "0 < r" using w h by (simp add: r_def)
    have "10 * \<bar>9 * w - 16 * h\<bar> \<noteq> 9 * h"
    proof
      assume eq: "10 * \<bar>9 * w - 16 * h\<bar> = 9 * h"
      show False
      proof (cases "0 \<le> 9 * w - 16 * h")
        case True
        with eq have "90 * w = 169 * h" by simp
        with e show False by simp
      next
        case False
        with eq have "90 * w = 151 * h" by simp
        with e show False by simp
      qed
    qed
    from ratio_margin [OF h _ _ this]
    have m1: "\<bar>r - 16 / 9\<bar> \<le> 1 / 10 - 1 / 2 ^ 40 \<or> 1 / 10 + 1 / 2 ^ 40 \<le> \<bar>r - 16 / 9\<bar>"
      by (simp add: r_def)
    have "10 * \<bar>16 * w - 9 * h\<bar> \<noteq> 16 * h"
    proof
      assume eq: "10 * \<bar>16 * w - 9 * h\<bar> = 16 * h"
      show False
      proof (cases "0 \<le> 16 * w - 9 * h")
        case True
        with eq have "80 * w = 53 * h" by simp
        with e show False by simp
      next
        case False
        with eq have "80 * w = 37 * h" by simp
        with e show False by simp
      qed
    qed
    from ratio_margin [OF h _ _ this]
    have m2: "\<bar>r - 9 / 16\<bar> \<le> 1 / 10 - 1 / 2 ^ 40 \<or> 1 / 10 + 1 / 2 ^ 40 \<le> \<bar>r - 9 / 16\<bar>"
      by (simp add: r_def)
    have t1: "(\<bar>fl (fl r - fl (16 / 9))\<bar> < fl (1 / 10)) = (\<bar>r - 16 / 9\<bar> < 1 / 10)"
      by (rule near_test [OF rpos _ _ _ m1]) (simp_all add: fl_consts)
    have t2: "(\<bar>fl (fl r - fl (9 / 16))\<bar> < fl (1 / 10)) = (\<bar>r - 9 / 16\<bar> < 1 / 10)"
      by (rule near_test [OF rpos _ _ _ m2]) (simp_all add: fl_consts)
    have "fdiv (toNumber w) (toNumber h) = fl r"
      by (simp add: fdiv_def toNumber_exact [OF bw] toNumber_exact [OF bh] r_def)
    then have "aspectRatioOf w h = specAspectClass w h"
      using t1 t2
      by (simp add: aspectRatioOf_def specAspectClass_def fsub_def r_def [symmetric] Let_def)
        (simp add: fdiv_def)
    with e show ?thesis by simp
  qed
qed

theorem aspectRatioOf_rule_witness:
  "aspectRatioOf 1920 1080 = ''landscape'' \<and> aspectRatioOf 1080 1920 = ''portrait''
   \<and> aspectRatioOf 1000 1000 = ''other'' \<and> aspectRatioOf 1812 1080 = ''landscape''"
proof -
  have "aspectRatioOf 1920 1080 = ''landscape''"
    using aspectRatioOf_rule [of 1920 1080] by (simp add: specAspectClass_def)
  moreover have "aspectRatioOf 1080 1920 = ''portrait''"
    using aspectRatioOf_rule [of 1080 1920] by (simp add: specAspectClass_def)
  moreover have "aspectRatioOf 1000 1000 = ''other''"
    using aspectRatioOf_rule [of 1000 1000] by (simp add: specAspectClass_def)
  moreover have "aspectRatioOf 1812 1080 = ''landscape''"
    using aspectRatioOf_rule [of 1812 1080] by simp
  ultimately show ?thesis by blast
qed

end
